theory Spec2Isabelle
  imports Complex_Main
begin

section \<open>Numbers, optional fields and strings of the source\<close>

text \<open>
  The source is TypeScript. A \<^verbatim>\<open>number\<close> is modelled as a \<^typ>\<open>real\<close>: arithmetic is exact,
  so rounding, \<^verbatim>\<open>NaN\<close> and the infinities of IEEE doubles are not represented. An optional
  field \<^verbatim>\<open>f?: number\<close> is a \<^typ>\<open>real option\<close>, \<^const>\<open>None\<close> standing for \<^verbatim>\<open>undefined\<close>.
\<close>

text \<open>\<^verbatim>\<open>x || d\<close> on an optional number: \<^verbatim>\<open>undefined\<close> and \<^verbatim>\<open>0\<close> are falsy, every other
  number (negative ones too) is truthy.\<close>

definition or_default :: "real option \<Rightarrow> real \<Rightarrow> real" where
  "or_default x d = (case x of None \<Rightarrow> d | Some v \<Rightarrow> if v = 0 then d else v)"

text \<open>\<^verbatim>\<open>!x\<close> on an optional number.\<close>

definition falsy :: "real option \<Rightarrow> bool" where
  "falsy x = (case x of None \<Rightarrow> True | Some v \<Rightarrow> v = 0)"

text \<open>\<^verbatim>\<open>x ? x * 2 : d\<close> on an optional number.\<close>

definition twice_or :: "real option \<Rightarrow> real \<Rightarrow> real" where
  "twice_or x d = (case x of None \<Rightarrow> d | Some v \<Rightarrow> if v = 0 then d else v * 2)"

text \<open>
  The tests \<^verbatim>\<open>a / b < c\<close> and \<^verbatim>\<open>a / b > c\<close> as the source evaluates them, for a finite bound
  \<open>c\<close>. Division by zero does not fail in the source: the quotient is \<^verbatim>\<open>Infinity\<close> for
  \<open>a > 0\<close>, \<^verbatim>\<open>-Infinity\<close> for \<open>a < 0\<close> and \<^verbatim>\<open>NaN\<close> for \<open>a = 0\<close>, and every comparison with
  \<^verbatim>\<open>NaN\<close> is false.
\<close>

definition quotient_less :: "real \<Rightarrow> real \<Rightarrow> real \<Rightarrow> bool" where
  "quotient_less a b c = (if b = 0 then a < 0 else a / b < c)"

definition quotient_greater :: "real \<Rightarrow> real \<Rightarrow> real \<Rightarrow> bool" where
  "quotient_greater a b c = (if b = 0 then a > 0 else a / b > c)"

text \<open>\<^verbatim>\<open>toUpperCase\<close> and \<^verbatim>\<open>toLowerCase\<close>, on the ASCII letters (the keys and enum values of
  the source are ASCII).\<close>

definition upper_char :: "char \<Rightarrow> char" where
  "upper_char c =
     (case map_of (zip ''abcdefghijklmnopqrstuvwxyz'' ''ABCDEFGHIJKLMNOPQRSTUVWXYZ'') c of
        None \<Rightarrow> c | Some u \<Rightarrow> u)"

definition lower_char :: "char \<Rightarrow> char" where
  "lower_char c =
     (case map_of (zip ''ABCDEFGHIJKLMNOPQRSTUVWXYZ'' ''abcdefghijklmnopqrstuvwxyz'') c of
        None \<Rightarrow> c | Some l \<Rightarrow> l)"

definition toUpperCase :: "string \<Rightarrow> string" where
  "toUpperCase s = map upper_char s"

definition toLowerCase :: "string \<Rightarrow> string" where
  "toLowerCase s = map lower_char s"

text \<open>
  A template literal is kept as the list of its pieces: literal text, a number rendered by
  \<^verbatim>\<open>toFixed(n)\<close>, and a number rendered by the default conversion. The rendering of numbers
  is not interpreted. The character for the cubic metre is written \<^verbatim>\<open>m3\<close>.
\<close>

datatype piece = Str string | Fixed nat real | Num real

type_synonym template = "piece list"

section \<open>Types of the habitat model\<close>

datatype HabitatShape = CYLINDER | SPHERE | TORUS | DOME | INFLATABLE | MODULAR | CUSTOM

text \<open>The value of each enum member, as interpolated into messages.\<close>

fun shape_str :: "HabitatShape \<Rightarrow> string" where
  "shape_str CYLINDER = ''cylinder''"
| "shape_str SPHERE = ''sphere''"
| "shape_str TORUS = ''torus''"
| "shape_str DOME = ''dome''"
| "shape_str INFLATABLE = ''inflatable''"
| "shape_str MODULAR = ''modular''"
| "shape_str CUSTOM = ''custom''"

text \<open>\<^verbatim>\<open>HabitatDimensions\<close>: one loosely typed object with every shape's optional fields.
  The field \<^verbatim>\<open>length\<close> is named \<open>length_d\<close>.\<close>

record HabitatDimensions =
  shape :: HabitatShape
  radius :: "real option"
  height :: "real option"
  sphereRadius :: "real option"
  majorRadius :: "real option"
  minorRadius :: "real option"
  domeRadius :: "real option"
  domeHeight :: "real option"
  length_d :: "real option"
  width :: "real option"
  depth :: "real option"
  inflatedRadius :: "real option"
  inflatedHeight :: "real option"

text \<open>
  Every \<^verbatim>\<open>throw new Error(...)\<close> of the geometry class, by kind:
  \<^item> \<open>RequiresPositive s\<close>: ``\<open>s\<close> requires positive ...'' (\<^verbatim>\<open>calculateVolume\<close>);
  \<^item> \<open>RequiresFields s\<close>: ``\<open>s\<close> requires ...'' (\<^verbatim>\<open>calculateSurfaceArea\<close>,
    \<^verbatim>\<open>calculateMomentOfInertia\<close>);
  \<^item> \<open>UnsupportedShape s\<close>: ``Unsupported habitat shape: \<open>s\<close>'';
  \<^item> \<open>NotImplemented s\<close>: ``Recommended dimensions not implemented for \<open>s\<close>''.
\<close>

datatype error =
    RequiresPositive HabitatShape
  | RequiresFields HabitatShape
  | UnsupportedShape HabitatShape
  | NotImplemented HabitatShape

datatype Category =
  Cat_volume | Cat_mass | Cat_power | Cat_safety | Cat_accessibility | Cat_adjacency

datatype Severity = Sev_error | Sev_warning | Sev_info

text \<open>\<^verbatim>\<open>ValidationResult\<close>, a finding.\<close>

record ValidationResult =
  category :: Category
  severity :: Severity
  message :: template
  suggestion :: "template option"
  affectedModules :: "string list option"
  complianceStandard :: template

section \<open>HabitatGeometry\<close>

text \<open>\<^verbatim>\<open>calculateVolume\<close>. \<^verbatim>\<open>Math.pow(x, 2)\<close> and \<^verbatim>\<open>Math.pow(x, 3)\<close> are powers with a
  natural exponent.\<close>

definition calculateVolume :: "HabitatDimensions \<Rightarrow> error + real" where
  "calculateVolume dimensions =
     (case shape dimensions of
        CYLINDER \<Rightarrow>
          (let radius' = or_default (radius dimensions) 4.0;
               height' = or_default (height dimensions) 12.0
           in if radius' \<le> 0 \<or> height' \<le> 0 then Inl (RequiresPositive CYLINDER)
              else Inr (pi * radius' ^ 2 * height'))
      | SPHERE \<Rightarrow>
          (let sphereRadius' = or_default (sphereRadius dimensions) 5.0
           in if sphereRadius' \<le> 0 then Inl (RequiresPositive SPHERE)
              else Inr ((4 / 3) * pi * sphereRadius' ^ 3))
      | TORUS \<Rightarrow>
          (let majorRadius' = or_default (majorRadius dimensions) 8.0;
               minorRadius' = or_default (minorRadius dimensions) 3.0
           in if majorRadius' \<le> 0 \<or> minorRadius' \<le> 0 then Inl (RequiresPositive TORUS)
              else Inr (2 * pi ^ 2 * majorRadius' * minorRadius' ^ 2))
      | DOME \<Rightarrow>
          (let domeRadius' = or_default (domeRadius dimensions) 6.0;
               domeHeight' = or_default (domeHeight dimensions) 4.0
           in if domeRadius' \<le> 0 \<or> domeHeight' \<le> 0 then Inl (RequiresPositive DOME)
              else let h = domeHeight'; r = domeRadius'
                   in Inr ((pi * h * h * (3 * r - h)) / 3))
      | INFLATABLE \<Rightarrow>
          (let inflatedRadius' = or_default (inflatedRadius dimensions) 4.0;
               inflatedHeight' = or_default (inflatedHeight dimensions) 10.0
           in if inflatedRadius' \<le> 0 \<or> inflatedHeight' \<le> 0
              then Inl (RequiresPositive INFLATABLE)
              else Inr (pi * inflatedRadius' ^ 2 * inflatedHeight'))
      | MODULAR \<Rightarrow>
          (let length' = or_default (length_d dimensions) 10.0;
               width' = or_default (width dimensions) 8.0;
               modularHeight = or_default (height dimensions) 6.0
           in if length' \<le> 0 \<or> width' \<le> 0 \<or> modularHeight \<le> 0
              then Inl (RequiresPositive MODULAR)
              else Inr (length' * width' * modularHeight))
      | CUSTOM \<Rightarrow> Inl (UnsupportedShape CUSTOM))"

text \<open>\<^verbatim>\<open>calculateSurfaceArea\<close>. Each guard \<^verbatim>\<open>!dimensions.f\<close> rejects an absent field and a
  zero one, and lets a negative one through. In the dome case \<^verbatim>\<open>Math.sqrt\<close> is
  \<^const>\<open>sqrt\<close>; for a negative radicand (\<open>domeH > 2 * domeR\<close>) the source yields \<^verbatim>\<open>NaN\<close>,
  which is not represented.\<close>

definition calculateSurfaceArea :: "HabitatDimensions \<Rightarrow> error + real" where
  "calculateSurfaceArea dimensions =
     (case shape dimensions of
        CYLINDER \<Rightarrow>
          if falsy (radius dimensions) \<or> falsy (height dimensions)
          then Inl (RequiresFields CYLINDER)
          else let cylR = the (radius dimensions); cylH = the (height dimensions)
               in Inr (2 * pi * cylR * (cylR + cylH))
      | SPHERE \<Rightarrow>
          if falsy (sphereRadius dimensions) then Inl (RequiresFields SPHERE)
          else Inr (4 * pi * the (sphereRadius dimensions) ^ 2)
      | TORUS \<Rightarrow>
          if falsy (majorRadius dimensions) \<or> falsy (minorRadius dimensions)
          then Inl (RequiresFields TORUS)
          else Inr (4 * pi ^ 2 * the (majorRadius dimensions) * the (minorRadius dimensions))
      | DOME \<Rightarrow>
          if falsy (domeRadius dimensions) \<or> falsy (domeHeight dimensions)
          then Inl (RequiresFields DOME)
          else let domeH = the (domeHeight dimensions); domeR = the (domeRadius dimensions);
                   baseRadius = sqrt (2 * domeR * domeH - domeH * domeH)
               in Inr (2 * pi * domeR * domeH + pi * baseRadius * baseRadius)
      | INFLATABLE \<Rightarrow>
          if falsy (inflatedRadius dimensions) \<or> falsy (inflatedHeight dimensions)
          then Inl (RequiresFields INFLATABLE)
          else let ir = the (inflatedRadius dimensions); ih = the (inflatedHeight dimensions)
               in Inr (2 * pi * ir * (ir + ih))
      | MODULAR \<Rightarrow>
          if falsy (length_d dimensions) \<or> falsy (width dimensions) \<or> falsy (height dimensions)
          then Inl (RequiresFields MODULAR)
          else let l = the (length_d dimensions); w = the (width dimensions);
                   hm = the (height dimensions)
               in Inr (2 * (l * w + l * hm + w * hm))
      | CUSTOM \<Rightarrow> Inl (UnsupportedShape CUSTOM))"

text \<open>\<^verbatim>\<open>getMaxDiameter\<close>: every branch is a \<^verbatim>\<open>Math.min\<close> with the fairing diameter.\<close>

definition getMaxDiameter :: "HabitatDimensions \<Rightarrow> real \<Rightarrow> real" where
  "getMaxDiameter dimensions fairingDiameter =
     (case shape dimensions of
        CYLINDER \<Rightarrow> min (twice_or (radius dimensions) fairingDiameter) fairingDiameter
      | INFLATABLE \<Rightarrow> min (twice_or (radius dimensions) fairingDiameter) fairingDiameter
      | SPHERE \<Rightarrow> min (twice_or (sphereRadius dimensions) fairingDiameter) fairingDiameter
      | TORUS \<Rightarrow> min (twice_or (majorRadius dimensions) fairingDiameter) fairingDiameter
      | DOME \<Rightarrow> min (twice_or (domeRadius dimensions) fairingDiameter) fairingDiameter
      | MODULAR \<Rightarrow>
          (let maxDim = max (or_default (length_d dimensions) 0) (or_default (width dimensions) 0)
           in min maxDim fairingDiameter)
      | CUSTOM \<Rightarrow> fairingDiameter)"

text \<open>\<^verbatim>\<open>calculateStructuralMass\<close>, its two default parameters made explicit.\<close>

definition default_wallThickness :: real where
  "default_wallThickness = 0.1"

definition default_materialDensity :: real where
  "default_materialDensity = 2700"

definition calculateStructuralMass :: "HabitatDimensions \<Rightarrow> real \<Rightarrow> real \<Rightarrow> error + real" where
  "calculateStructuralMass dimensions wallThickness materialDensity =
     (case calculateSurfaceArea dimensions of
        Inl e \<Rightarrow> Inl e
      | Inr surfaceArea \<Rightarrow> Inr (surfaceArea * wallThickness * materialDensity))"

text \<open>\<^verbatim>\<open>getEffectiveHeight\<close>.\<close>

definition getEffectiveHeight :: "HabitatDimensions \<Rightarrow> real" where
  "getEffectiveHeight dimensions =
     (case shape dimensions of
        CYLINDER \<Rightarrow> or_default (height dimensions) (or_default (inflatedHeight dimensions) 0)
      | INFLATABLE \<Rightarrow> or_default (height dimensions) (or_default (inflatedHeight dimensions) 0)
      | SPHERE \<Rightarrow> twice_or (sphereRadius dimensions) 0
      | TORUS \<Rightarrow> twice_or (minorRadius dimensions) 0
      | DOME \<Rightarrow> or_default (domeHeight dimensions) 0
      | MODULAR \<Rightarrow> or_default (height dimensions) 0
      | CUSTOM \<Rightarrow> 0)"

text \<open>The result of \<^verbatim>\<open>checkLaunchConstraints\<close>; the fields of \<^verbatim>\<open>utilizationFactors\<close> carry
  the suffix \<open>_u\<close>.\<close>

record UtilizationFactors =
  diameter_u :: real
  height_u :: real
  mass_u :: real

record LaunchCheck =
  fits :: bool
  violations :: "template list"
  utilizationFactors :: UtilizationFactors

text \<open>The three violation messages.\<close>

definition diameter_violation :: "real \<Rightarrow> real \<Rightarrow> template" where
  "diameter_violation maxDiameter fairingDiameter =
     [Str ''Habitat diameter ('', Fixed 2 maxDiameter,
      Str ''m) exceeds fairing diameter ('', Num fairingDiameter, Str ''m)'']"

definition height_violation :: "real \<Rightarrow> real \<Rightarrow> template" where
  "height_violation habitatHeight fairingHeight =
     [Str ''Habitat height ('', Fixed 2 habitatHeight,
      Str ''m) exceeds fairing height ('', Num fairingHeight, Str ''m)'']"

definition mass_violation :: "real \<Rightarrow> real \<Rightarrow> template" where
  "mass_violation structuralMass maxMass =
     [Str ''Structural mass ('', Fixed 1 (structuralMass / 1000),
      Str ''t) exceeds launch capacity ('', Fixed 1 (maxMass / 1000), Str ''t)'']"

text \<open>\<^verbatim>\<open>checkLaunchConstraints\<close>. The structural mass is computed first, so an error of the
  surface area leaves the function before anything else. The three limits are divisors;
  the utilization factors are those of the source for limits other than zero.\<close>

definition checkLaunchConstraints ::
  "HabitatDimensions \<Rightarrow> real \<Rightarrow> real \<Rightarrow> real \<Rightarrow> error + LaunchCheck" where
  "checkLaunchConstraints dimensions fairingDiameter fairingHeight maxMass =
     (case calculateStructuralMass dimensions default_wallThickness default_materialDensity of
        Inl e \<Rightarrow> Inl e
      | Inr structuralMass \<Rightarrow>
          (let maxDiameter = getMaxDiameter dimensions fairingDiameter;
               diameterUtilization = maxDiameter / fairingDiameter;
               v1 = (if quotient_greater maxDiameter fairingDiameter 1.0
                     then [diameter_violation maxDiameter fairingDiameter] else []);
               habitatHeight = getEffectiveHeight dimensions;
               heightUtilization = habitatHeight / fairingHeight;
               v2 = (if quotient_greater habitatHeight fairingHeight 1.0
                     then [height_violation habitatHeight fairingHeight] else []);
               massUtilization = structuralMass / maxMass;
               v3 = (if quotient_greater structuralMass maxMass 1.0
                     then [mass_violation structuralMass maxMass] else []);
               violations' = v1 @ v2 @ v3
           in Inr \<lparr>fits = (length violations' = 0),
                   violations = violations',
                   utilizationFactors =
                     \<lparr>diameter_u = min diameterUtilization 1.0,
                      height_u = min heightUtilization 1.0,
                      mass_u = min massUtilization 1.0\<rparr>\<rparr>))"

text \<open>An object literal that sets only the shape.\<close>

definition only_shape :: "HabitatShape \<Rightarrow> HabitatDimensions" where
  "only_shape s =
     \<lparr>shape = s, radius = None, height = None, sphereRadius = None, majorRadius = None,
      minorRadius = None, domeRadius = None, domeHeight = None, length_d = None,
      width = None, depth = None, inflatedRadius = None, inflatedHeight = None\<rparr>"

text \<open>The exponent \<^verbatim>\<open>1 / 3\<close> of the source is a division of doubles: its value is the double
  nearest to one third, \<open>6004799503160661 / 2^54\<close>, which is below one third.\<close>

definition one_third :: real where
  "one_third = 6004799503160661 / 18014398509481984"

text \<open>\<^verbatim>\<open>generateRecommendedDimensions\<close>. \<^verbatim>\<open>Math.pow(x, 1 / 3)\<close> is \<open>x powr one_third\<close>, the power
  itself and the other operations being exact (for a negative \<open>x\<close> the source yields
  \<^verbatim>\<open>NaN\<close>).\<close>

definition generateRecommendedDimensions ::
  "HabitatShape \<Rightarrow> real \<Rightarrow> real \<Rightarrow> error + HabitatDimensions" where
  "generateRecommendedDimensions shape' targetVolume aspectRatio =
     (case shape' of
        CYLINDER \<Rightarrow>
          (let cylinderRadius = (targetVolume / (2 * pi * aspectRatio)) powr one_third
           in Inr ((only_shape shape')
                     \<lparr>radius := Some cylinderRadius,
                      height := Some (aspectRatio * 2 * cylinderRadius)\<rparr>))
      | SPHERE \<Rightarrow>
          (let sphereRadius' = ((3 * targetVolume) / (4 * pi)) powr one_third
           in Inr ((only_shape shape')\<lparr>sphereRadius := Some sphereRadius'\<rparr>))
      | MODULAR \<Rightarrow>
          (let sideLength = targetVolume powr one_third
           in Inr ((only_shape shape')
                     \<lparr>length_d := Some sideLength, width := Some sideLength,
                      height := Some sideLength\<rparr>))
      | _ \<Rightarrow> Inl (NotImplemented shape'))"


section \<open>The design record and the standards\<close>

datatype ModuleType =
    COMMAND | HABITATION | LABORATORY | LOGISTICS | EXERCISE
  | MEDICAL | AIRLOCK | GREENHOUSE | WORKSHOP | RECREATION

text \<open>The value of each member of the enum \<^verbatim>\<open>ModuleType\<close>.\<close>

fun type_str :: "ModuleType \<Rightarrow> string" where
  "type_str COMMAND = ''command''"
| "type_str HABITATION = ''habitation''"
| "type_str LABORATORY = ''laboratory''"
| "type_str LOGISTICS = ''logistics''"
| "type_str EXERCISE = ''exercise''"
| "type_str MEDICAL = ''medical''"
| "type_str AIRLOCK = ''airlock''"
| "type_str GREENHOUSE = ''greenhouse''"
| "type_str WORKSHOP = ''workshop''"
| "type_str RECREATION = ''recreation''"

datatype Destination =
  LEO | LUNAR_ORBIT | LUNAR_SURFACE | MARS_ORBIT | MARS_SURFACE | DEEP_SPACE

datatype MissionType = Exploration | Research | Construction | Settlement

text \<open>\<^verbatim>\<open>MissionParameters\<close>. The launch vehicle is kept as the string it is at run time, so
  that the lookup of the fairing table can miss.\<close>

record MissionParameters =
  crewSize :: real
  duration :: real
  destination :: Destination
  launchVehicle :: string
  missionType :: MissionType
  emergencyEvacuation :: bool

text \<open>\<^verbatim>\<open>FunctionalModule\<close>, without the fields of the 3D scene (position, rotation, box
  dimensions, access requirements), which no function below reads. The fields \<^verbatim>\<open>id\<close>,
  \<^verbatim>\<open>type\<close>, \<^verbatim>\<open>name\<close>, \<^verbatim>\<open>description\<close> and \<^verbatim>\<open>essential\<close> carry the suffix \<open>_m\<close>.\<close>

record FunctionalModule =
  id_m :: string
  type_m :: ModuleType
  name_m :: string
  description_m :: string
  volume :: real
  mass :: real
  powerRequirement :: real
  crewCapacity :: real
  essential_m :: bool
  adjacencyRequirements :: "string list"
  adjacencyRestrictions :: "string list"

datatype ConnectionType = Corridor | Airlock_c | Hatch | Emergency

text \<open>\<^verbatim>\<open>Connection\<close>; the fields \<^verbatim>\<open>id\<close>, \<^verbatim>\<open>type\<close>, \<^verbatim>\<open>diameter\<close> and \<^verbatim>\<open>length\<close> carry the
  suffix \<open>_c\<close>.\<close>

record Connection =
  id_c :: string
  fromModuleId :: string
  toModuleId :: string
  type_c :: ConnectionType
  diameter_c :: real
  length_c :: real
  pressurized :: bool
  bidirectional :: bool

text \<open>\<^verbatim>\<open>HabitatDesign\<close>, without its identity, dates, stored validation results and export
  settings. The aggregate \<^verbatim>\<open>powerRequirement\<close> is named \<open>powerRequirement_d\<close>.\<close>

record HabitatDesign =
  dimensions :: HabitatDimensions
  missionParameters :: MissionParameters
  modules :: "FunctionalModule list"
  connections :: "Connection list"
  totalVolume :: real
  pressurizedVolume :: real
  netHabitableVolume :: real
  totalMass :: real
  powerRequirement_d :: real

text \<open>The constants of \<^verbatim>\<open>nasa-standards.ts\<close> that the validator reads.\<close>

definition NHV_PER_CREW_MINIMUM :: real where "NHV_PER_CREW_MINIMUM = 25"
definition NHV_PER_CREW_OPTIMAL :: real where "NHV_PER_CREW_OPTIMAL = 75"
definition SLEEP_VOLUME_PER_CREW :: real where "SLEEP_VOLUME_PER_CREW = 2.5"
definition WORK_VOLUME_PER_CREW :: real where "WORK_VOLUME_PER_CREW = 8"
definition COMMON_AREA_PER_CREW :: real where "COMMON_AREA_PER_CREW = 10"
definition MIN_CREW :: real where "MIN_CREW = 2"
definition MAX_CREW_LARGE :: real where "MAX_CREW_LARGE = 12"

text \<open>\<^verbatim>\<open>MISSION_DURATIONS\<close>, in the order of its keys; \<open>max_r = None\<close> is \<^verbatim>\<open>Infinity\<close>.
  The labels, which nothing reads, are written in ASCII.\<close>

record DurationRange =
  min_r :: real
  max_r :: "real option"
  label_r :: string

definition MISSION_DURATIONS :: "(string \<times> DurationRange) list" where
  "MISSION_DURATIONS =
     [(''SHORT_TERM'', \<lparr>min_r = 1, max_r = Some 30, label_r = ''Short-term (<=30 days)''\<rparr>),
      (''MEDIUM_TERM'', \<lparr>min_r = 31, max_r = Some 180, label_r = ''Medium-term (31-180 days)''\<rparr>),
      (''LONG_TERM'', \<lparr>min_r = 181, max_r = Some 500, label_r = ''Long-term (181-500 days)''\<rparr>),
      (''EXTENDED'', \<lparr>min_r = 501, max_r = Some 1000, label_r = ''Extended (501+ days)''\<rparr>),
      (''PERMANENT'', \<lparr>min_r = 1001, max_r = None, label_r = ''Permanent Settlement''\<rparr>)]"

text \<open>\<^verbatim>\<open>PAYLOAD_FAIRINGS\<close>.\<close>

record Fairing =
  diameter_f :: real
  height_f :: real
  volume_f :: real
  mass_limit :: real
  label_f :: string

definition PAYLOAD_FAIRINGS :: "(string \<times> Fairing) list" where
  "PAYLOAD_FAIRINGS =
     [(''FALCON_HEAVY'', \<lparr>diameter_f = 5.2, height_f = 13.1, volume_f = 145,
                          mass_limit = 26700, label_f = ''SpaceX Falcon Heavy''\<rparr>),
      (''SLS_BLOCK_1'', \<lparr>diameter_f = 5.0, height_f = 19.1, volume_f = 374,
                         mass_limit = 27000, label_f = ''NASA SLS Block 1''\<rparr>),
      (''SLS_BLOCK_2'', \<lparr>diameter_f = 8.4, height_f = 19.1, volume_f = 1058,
                         mass_limit = 45000, label_f = ''NASA SLS Block 2 (Future)''\<rparr>),
      (''STARSHIP'', \<lparr>diameter_f = 9.0, height_f = 18.0, volume_f = 1100,
                      mass_limit = 150000, label_f = ''SpaceX Starship''\<rparr>)]"

text \<open>\<^verbatim>\<open>MODULE_TYPES\<close>, in the order of its keys: eight entries, none for the module types
  workshop and recreation.\<close>

record ModuleConfig =
  essential :: bool
  min_volume :: real
  max_occupancy :: real
  description :: string

definition MODULE_TYPES :: "(string \<times> ModuleConfig) list" where
  "MODULE_TYPES =
     [(''COMMAND'', \<lparr>essential = True, min_volume = 15, max_occupancy = 8,
                     description = ''Command and control center''\<rparr>),
      (''HABITATION'', \<lparr>essential = True, min_volume = 20, max_occupancy = 4,
                        description = ''Living quarters and personal space''\<rparr>),
      (''LABORATORY'', \<lparr>essential = False, min_volume = 25, max_occupancy = 6,
                        description = ''Science and research laboratory''\<rparr>),
      (''LOGISTICS'', \<lparr>essential = True, min_volume = 10, max_occupancy = 2,
                       description = ''Storage and supply management''\<rparr>),
      (''EXERCISE'', \<lparr>essential = True, min_volume = 15, max_occupancy = 2,
                      description = ''Exercise and fitness equipment''\<rparr>),
      (''MEDICAL'', \<lparr>essential = True, min_volume = 8, max_occupancy = 3,
                     description = ''Medical bay and health monitoring''\<rparr>),
      (''AIRLOCK'', \<lparr>essential = True, min_volume = 6, max_occupancy = 2,
                     description = ''EVA preparation and equipment''\<rparr>),
      (''GREENHOUSE'', \<lparr>essential = False, min_volume = 20, max_occupancy = 4,
                        description = ''Food production and life support''\<rparr>)]"

section \<open>HabitatValidator: the sub-checks\<close>

text \<open>\<^verbatim>\<open>calculateRequiredNHV\<close>: three \<^verbatim>\<open>if\<close> statements in sequence overwrite the multiplier.\<close>

record RequiredNHV =
  minimum :: real
  optimal :: real

definition calculateRequiredNHV :: "real \<Rightarrow> real \<Rightarrow> RequiredNHV" where
  "calculateRequiredNHV crewSize' duration' =
     (let basePerCrew = NHV_PER_CREW_MINIMUM;
          optimalPerCrew = NHV_PER_CREW_OPTIMAL;
          m0 = 1.0;
          m1 = (if duration' > 180 then 1.2 else m0);
          m2 = (if duration' > 500 then 1.5 else m1);
          durationMultiplier = (if duration' > 1000 then 2.0 else m2)
      in \<lparr>minimum = crewSize' * basePerCrew * durationMultiplier,
          optimal = crewSize' * optimalPerCrew * durationMultiplier\<rparr>)"

text \<open>\<^verbatim>\<open>getVolumeByType\<close>: \<^verbatim>\<open>filter\<close>, then \<^verbatim>\<open>reduce\<close> from \<open>0\<close>.\<close>

definition getVolumeByType :: "FunctionalModule list \<Rightarrow> ModuleType \<Rightarrow> real" where
  "getVolumeByType modules' type' =
     foldl (\<lambda>acc module'. acc + volume module') 0 (filter (\<lambda>module'. type_m module' = type') modules')"

text \<open>\<^verbatim>\<open>validateFunctionalAreaVolumes\<close>. The required and the actual common volume are
  computed and read by nothing.\<close>

definition validateFunctionalAreaVolumes :: "HabitatDesign \<Rightarrow> ValidationResult list" where
  "validateFunctionalAreaVolumes design =
     (let crewSize' = crewSize (missionParameters design);
          requiredSleepVolume = crewSize' * SLEEP_VOLUME_PER_CREW;
          requiredWorkVolume = crewSize' * WORK_VOLUME_PER_CREW;
          requiredCommonVolume = crewSize' * COMMON_AREA_PER_CREW;
          actualSleepVolume = getVolumeByType (modules design) HABITATION;
          actualWorkVolume = getVolumeByType (modules design) LABORATORY
                             + getVolumeByType (modules design) COMMAND;
          actualCommonVolume = getVolumeByType (modules design) RECREATION;
          r1 = (if actualSleepVolume < requiredSleepVolume
                then [\<lparr>category = Cat_volume, severity = Sev_warning,
                       message = [Str ''Insufficient sleep area ('', Fixed 1 actualSleepVolume,
                                  Str ''m3 vs '', Fixed 1 requiredSleepVolume,
                                  Str ''m3 required)''],
                       suggestion =
                         Some [Str ''Increase habitation module size or add sleep quarters''],
                       affectedModules = None,
                       complianceStandard = [Str ''Crew Quarters Requirements'']\<rparr>]
                else []);
          r2 = (if actualWorkVolume < requiredWorkVolume
                then [\<lparr>category = Cat_volume, severity = Sev_warning,
                       message = [Str ''Insufficient work space ('', Fixed 1 actualWorkVolume,
                                  Str ''m3 vs '', Fixed 1 requiredWorkVolume,
                                  Str ''m3 required)''],
                       suggestion = Some [Str ''Increase laboratory or command module size''],
                       affectedModules = None,
                       complianceStandard = [Str ''Workspace Requirements'']\<rparr>]
                else [])
      in r1 @ r2)"

text \<open>\<^verbatim>\<open>validateVolumeRequirements\<close>.\<close>

definition validateVolumeRequirements :: "HabitatDesign \<Rightarrow> ValidationResult list" where
  "validateVolumeRequirements design =
     (let crewSize' = crewSize (missionParameters design);
          duration' = duration (missionParameters design);
          requiredNHV = calculateRequiredNHV crewSize' duration';
          actualNHV = netHabitableVolume design;
          r1 = (if actualNHV < minimum requiredNHV
                then [\<lparr>category = Cat_volume, severity = Sev_error,
                       message = [Str ''Net Habitable Volume ('', Fixed 1 actualNHV,
                                  Str ''m3) is below NASA minimum requirement ('',
                                  Fixed 1 (minimum requiredNHV), Str ''m3)''],
                       suggestion =
                         Some [Str ''Increase habitat volume by '',
                               Fixed 1 (minimum requiredNHV - actualNHV),
                               Str ''m3 or reduce crew size''],
                       affectedModules = None,
                       complianceStandard = [Str ''NASA-STD-3001-V1'']\<rparr>]
                else if actualNHV < optimal requiredNHV
                then [\<lparr>category = Cat_volume, severity = Sev_warning,
                       message = [Str ''Net Habitable Volume is below optimal requirement ('',
                                  Fixed 1 (optimal requiredNHV), Str ''m3)''],
                       suggestion =
                         Some [Str ''Consider increasing volume for crew comfort and mission success''],
                       affectedModules = None,
                       complianceStandard = [Str ''NASA-STD-3001-V1'']\<rparr>]
                else []);
          volumePerCrew = actualNHV / crewSize';
          r2 = (if quotient_less actualNHV crewSize' NHV_PER_CREW_MINIMUM
                then [\<lparr>category = Cat_volume, severity = Sev_error,
                       message = [Str ''Volume per crew member ('', Fixed 1 volumePerCrew,
                                  Str ''m3) is below minimum ('', Num NHV_PER_CREW_MINIMUM,
                                  Str ''m3)''],
                       suggestion = Some [Str ''Increase habitat volume or reduce crew size''],
                       affectedModules = None,
                       complianceStandard = [Str ''NASA-STD-3001-V1'']\<rparr>]
                else [])
      in r1 @ r2 @ validateFunctionalAreaVolumes design)"

text \<open>\<^verbatim>\<open>validateLaunchConstraints\<close>. An unknown vehicle is a finding and an early return; an
  error of \<^verbatim>\<open>checkLaunchConstraints\<close> is not caught here.\<close>

definition unknown_vehicle :: "string \<Rightarrow> ValidationResult" where
  "unknown_vehicle launchVehicle' =
     \<lparr>category = Cat_mass, severity = Sev_error,
      message = [Str ''Unknown launch vehicle: '', Str launchVehicle'],
      suggestion = Some [Str ''Select a valid launch vehicle''],
      affectedModules = None,
      complianceStandard = [Str ''Launch Vehicle Specifications'']\<rparr>"

definition violation_finding :: "Fairing \<Rightarrow> template \<Rightarrow> ValidationResult" where
  "violation_finding fairing violation =
     \<lparr>category = Cat_mass, severity = Sev_error,
      message = violation,
      suggestion = Some [Str ''Reduce habitat size or select larger launch vehicle''],
      affectedModules = None,
      complianceStandard = [Str (label_f fairing), Str '' Specifications'']\<rparr>"

definition validateLaunchConstraints :: "HabitatDesign \<Rightarrow> error + ValidationResult list" where
  "validateLaunchConstraints design =
     (let launchVehicle' = launchVehicle (missionParameters design)
      in case map_of PAYLOAD_FAIRINGS (toUpperCase launchVehicle') of
           None \<Rightarrow> Inr [unknown_vehicle launchVehicle']
         | Some fairing \<Rightarrow>
             (case checkLaunchConstraints (dimensions design) (diameter_f fairing)
                     (height_f fairing) (mass_limit fairing) of
                Inl e \<Rightarrow> Inl e
              | Inr constraints \<Rightarrow>
                  (let r1 = (if \<not> fits constraints
                             then map (violation_finding fairing) (violations constraints)
                             else []);
                       avgUtilization =
                         (diameter_u (utilizationFactors constraints)
                          + height_u (utilizationFactors constraints)
                          + mass_u (utilizationFactors constraints)) / 3;
                       r2 = (if avgUtilization < 0.6
                             then [\<lparr>category = Cat_volume, severity = Sev_info,
                                    message = [Str ''Low fairing utilization ('',
                                               Fixed 1 (avgUtilization * 100),
                                               Str ''%). Consider optimizing dimensions.''],
                                    suggestion =
                                      Some [Str ''Increase habitat size to better utilize launch capacity''],
                                    affectedModules = None,
                                    complianceStandard = [Str ''Launch Efficiency Guidelines'']\<rparr>]
                             else [])
                   in Inr (r1 @ r2))))"

text \<open>\<^verbatim>\<open>getMissionDurationCategory\<close>: the first range that contains the duration, and
  \<^verbatim>\<open>'EXTENDED'\<close> after the loop.\<close>

fun first_category :: "(string \<times> DurationRange) list \<Rightarrow> real \<Rightarrow> string" where
  "first_category [] duration' = ''EXTENDED''"
| "first_category ((category', range') # rest) duration' =
     (if duration' \<ge> min_r range'
         \<and> (case max_r range' of None \<Rightarrow> True | Some mx \<Rightarrow> duration' \<le> mx)
      then category' else first_category rest duration')"

definition getMissionDurationCategory :: "real \<Rightarrow> string" where
  "getMissionDurationCategory duration' = first_category MISSION_DURATIONS duration'"

text \<open>\<^verbatim>\<open>validateCrewRequirements\<close>.\<close>

definition validateCrewRequirements :: "HabitatDesign \<Rightarrow> ValidationResult list" where
  "validateCrewRequirements design =
     (let mission = missionParameters design;
          r1 = (if crewSize mission < MIN_CREW
                then [\<lparr>category = Cat_safety, severity = Sev_error,
                       message = [Str ''Crew size ('', Num (crewSize mission),
                                  Str '') is below minimum safe crew ('', Num MIN_CREW, Str '')''],
                       suggestion =
                         Some [Str ''Increase crew size for mission safety and redundancy''],
                       affectedModules = None,
                       complianceStandard = [Str ''NASA-STD-3001-V2'']\<rparr>]
                else []);
          r2 = (if crewSize mission > MAX_CREW_LARGE
                then [\<lparr>category = Cat_volume, severity = Sev_warning,
                       message = [Str ''Large crew size ('', Num (crewSize mission),
                                  Str '') may require multiple habitat modules''],
                       suggestion = Some [Str ''Consider modular habitat design or crew rotation''],
                       affectedModules = None,
                       complianceStandard = [Str ''Crew Operations Guidelines'']\<rparr>]
                else []);
          durationCategory = getMissionDurationCategory (duration mission);
          r3 = (if durationCategory = ''EXTENDED'' \<or> durationCategory = ''PERMANENT''
                then (let hasGreenhouse = list_ex (\<lambda>m. type_m m = GREENHOUSE) (modules design)
                      in if \<not> hasGreenhouse
                         then [\<lparr>category = Cat_volume, severity = Sev_warning,
                                message = [Str ''Long-duration missions should include food production capability''],
                                suggestion =
                                  Some [Str ''Add greenhouse/hydroponic module for food sustainability''],
                                affectedModules = None,
                                complianceStandard = [Str ''Long-Duration Mission Requirements'']\<rparr>]
                         else [])
                else [])
      in r1 @ r2 @ r3)"

text \<open>\<^verbatim>\<open>validateSafetyRequirements\<close>. The essential types are the lower-cased keys of the
  entries of \<^verbatim>\<open>MODULE_TYPES\<close> flagged essential; \<^verbatim>\<open>includes\<close> compares them with the values
  of the module types present.\<close>

definition missing_essential :: "string \<Rightarrow> ValidationResult" where
  "missing_essential moduleType =
     \<lparr>category = Cat_safety, severity = Sev_error,
      message = [Str ''Missing essential module: '', Str moduleType],
      suggestion = Some [Str ''Add '', Str moduleType, Str '' module for mission safety''],
      affectedModules = None,
      complianceStandard = [Str ''NASA-STD-3001-V2'']\<rparr>"

definition validateSafetyRequirements :: "HabitatDesign \<Rightarrow> ValidationResult list" where
  "validateSafetyRequirements design =
     (let essentialModules =
            map (\<lambda>(type', _). toLowerCase type') (filter (\<lambda>(_, config). essential config) MODULE_TYPES);
          presentModules = map type_m (modules design);
          missingEssential =
            filter (\<lambda>type'. type' \<notin> set (map type_str presentModules)) essentialModules;
          r1 = map missing_essential missingEssential;
          airlocks = filter (\<lambda>m. type_m m = AIRLOCK) (modules design);
          r2 = (if length airlocks < 2 \<and> duration (missionParameters design) > 30
                then [\<lparr>category = Cat_safety, severity = Sev_warning,
                       message = [Str ''Long-duration missions should have redundant airlocks''],
                       suggestion = Some [Str ''Add secondary airlock for emergency egress''],
                       affectedModules = None,
                       complianceStandard = [Str ''Emergency Egress Requirements'']\<rparr>]
                else []);
          r3 = (if emergencyEvacuation (missionParameters design)
                then (let totalEvacCapacity =
                            foldl (\<lambda>acc airlock. acc + crewCapacity airlock) 0 airlocks
                      in if totalEvacCapacity < crewSize (missionParameters design)
                         then [\<lparr>category = Cat_safety, severity = Sev_error,
                                message = [Str ''Insufficient emergency evacuation capacity''],
                                suggestion =
                                  Some [Str ''Increase airlock capacity or add emergency escape pods''],
                                affectedModules = None,
                                complianceStandard = [Str ''Emergency Evacuation Procedures'']\<rparr>]
                         else [])
                else [])
      in r1 @ r2 @ r3)"

text \<open>\<^verbatim>\<open>validateModuleRequirements\<close>. The predicate of the two \<^verbatim>\<open>connections.some\<close> calls
  looks for a connection between the two ids in either direction.\<close>

definition hasConnection :: "HabitatDesign \<Rightarrow> string \<Rightarrow> string \<Rightarrow> bool" where
  "hasConnection design moduleId otherId =
     list_ex (\<lambda>conn. (fromModuleId conn = moduleId \<and> toModuleId conn = otherId)
                   \<or> (toModuleId conn = moduleId \<and> fromModuleId conn = otherId))
       (connections design)"

text \<open>\<^verbatim>\<open>m?.name || id\<close>, for \<^verbatim>\<open>m\<close> the first module with that id: a missing module and an
  empty name both give the id.\<close>

definition name_or_id :: "HabitatDesign \<Rightarrow> string \<Rightarrow> string" where
  "name_or_id design otherId =
     (case find (\<lambda>m. id_m m = otherId) (modules design) of
        None \<Rightarrow> otherId
      | Some m \<Rightarrow> if name_m m = [] then otherId else name_m m)"

definition adjacency_warning ::
  "HabitatDesign \<Rightarrow> FunctionalModule \<Rightarrow> string \<Rightarrow> ValidationResult" where
  "adjacency_warning design module' requiredId =
     \<lparr>category = Cat_adjacency, severity = Sev_warning,
      message = [Str (name_m module'), Str '' should be adjacent to '',
                 Str (name_or_id design requiredId)],
      suggestion = Some [Str ''Add connection or relocate modules for optimal workflow''],
      affectedModules = Some [id_m module', requiredId],
      complianceStandard = [Str ''Habitat Layout Guidelines'']\<rparr>"

definition restriction_error ::
  "HabitatDesign \<Rightarrow> FunctionalModule \<Rightarrow> string \<Rightarrow> ValidationResult" where
  "restriction_error design module' restrictedId =
     \<lparr>category = Cat_adjacency, severity = Sev_error,
      message = [Str (name_m module'), Str '' should not be adjacent to '',
                 Str (name_or_id design restrictedId)],
      suggestion = Some [Str ''Relocate modules to maintain safe separation''],
      affectedModules = Some [id_m module', restrictedId],
      complianceStandard = [Str ''Safety Separation Requirements'']\<rparr>"

definition volume_warning :: "FunctionalModule \<Rightarrow> ModuleConfig \<Rightarrow> ValidationResult" where
  "volume_warning module' moduleConfig =
     \<lparr>category = Cat_volume, severity = Sev_warning,
      message = [Str (name_m module'), Str '' volume ('', Fixed 1 (volume module'),
                 Str ''m3) is below recommended minimum ('', Num (min_volume moduleConfig),
                 Str ''m3)''],
      suggestion = Some [Str ''Increase module size for optimal functionality''],
      affectedModules = Some [id_m module'],
      complianceStandard = [Str ''Module Design Standards'']\<rparr>"

text \<open>The body of the loop over the modules: the findings one module adds.\<close>

definition check_requirements :: "HabitatDesign \<Rightarrow> FunctionalModule \<Rightarrow> ValidationResult list" where
  "check_requirements design module' =
     concat (map (\<lambda>requiredId.
                    if \<not> hasConnection design (id_m module') requiredId
                    then [adjacency_warning design module' requiredId] else [])
               (adjacencyRequirements module'))"

definition check_restrictions :: "HabitatDesign \<Rightarrow> FunctionalModule \<Rightarrow> ValidationResult list" where
  "check_restrictions design module' =
     concat (map (\<lambda>restrictedId.
                    if hasConnection design (id_m module') restrictedId
                    then [restriction_error design module' restrictedId] else [])
               (adjacencyRestrictions module'))"

definition check_volume :: "FunctionalModule \<Rightarrow> ValidationResult list" where
  "check_volume module' =
     (case map_of MODULE_TYPES (toUpperCase (type_str (type_m module'))) of
        None \<Rightarrow> []
      | Some moduleConfig \<Rightarrow>
          if volume module' < min_volume moduleConfig
          then [volume_warning module' moduleConfig] else [])"

definition validateModuleRequirements :: "HabitatDesign \<Rightarrow> ValidationResult list" where
  "validateModuleRequirements design =
     concat (map (\<lambda>module'. check_requirements design module'
                           @ check_restrictions design module'
                           @ check_volume module')
               (modules design))"

text \<open>\<^verbatim>\<open>validateLifeSupportRequirements\<close>.\<close>

definition validateLifeSupportRequirements :: "HabitatDesign \<Rightarrow> ValidationResult list" where
  "validateLifeSupportRequirements design =
     (let totalPowerReq = foldl (\<lambda>acc module'. acc + powerRequirement module') 0 (modules design);
          estimatedPowerCapacity = totalVolume design * 2;
          r1 = (if totalPowerReq > estimatedPowerCapacity
                then [\<lparr>category = Cat_power, severity = Sev_warning,
                       message = [Str ''Power requirement ('', Fixed 1 totalPowerReq,
                                  Str ''kW) may exceed capacity''],
                       suggestion =
                         Some [Str ''Review power systems or reduce equipment power consumption''],
                       affectedModules = None,
                       complianceStandard = [Str ''Power System Requirements'']\<rparr>]
                else []);
          crewSize' = crewSize (missionParameters design);
          requiredAirflow = crewSize' * 0.5;
          habitatVolume = totalVolume design;
          r2 = (if quotient_less (requiredAirflow * 60) habitatVolume 0.5
                then [\<lparr>category = Cat_safety, severity = Sev_warning,
                       message = [Str ''Low air circulation rate for crew size''],
                       suggestion =
                         Some [Str ''Increase air handling capacity or reduce habitat volume''],
                       affectedModules = None,
                       complianceStandard = [Str ''Air Quality Standards'']\<rparr>]
                else [])
      in r1 @ r2)"

text \<open>\<^verbatim>\<open>validateDesign\<close>: the six sub-checks in order, with no \<^verbatim>\<open>try\<close> around any of them.
  Only the launch sub-check can throw; the volume sub-check has run by then, and the
  exception leaves \<^verbatim>\<open>validateDesign\<close> before the other four run.\<close>

definition validateDesign :: "HabitatDesign \<Rightarrow> error + ValidationResult list" where
  "validateDesign design =
     (let results1 = validateVolumeRequirements design
      in case validateLaunchConstraints design of
           Inl e \<Rightarrow> Inl e
         | Inr results2 \<Rightarrow>
             Inr (results1 @ results2
                  @ validateCrewRequirements design
                  @ validateSafetyRequirements design
                  @ validateModuleRequirements design
                  @ validateLifeSupportRequirements design))"

section \<open>HabitatValidator: the compliance score\<close>

text \<open>\<^verbatim>\<open>calculateComplianceScore\<close>: a \<^verbatim>\<open>reduce\<close> from \<open>0\<close>, then \<^verbatim>\<open>Math.max(0, 100 - total)\<close>.
  The deductions are whole numbers, modelled in \<^typ>\<open>int\<close>; the \<^verbatim>\<open>default\<close> branch of the
  \<^verbatim>\<open>switch\<close> is excluded by the type of \<^verbatim>\<open>severity\<close>.\<close>

fun deduct :: "int \<Rightarrow> ValidationResult \<Rightarrow> int" where
  "deduct acc result =
     (case severity result of
        Sev_error \<Rightarrow> acc + 15
      | Sev_warning \<Rightarrow> acc + 5
      | Sev_info \<Rightarrow> acc + 1)"

declare deduct.simps [simp del]

definition calculateComplianceScore :: "ValidationResult list \<Rightarrow> int" where
  "calculateComplianceScore validationResults =
     (let totalDeductions = foldl deduct 0 validationResults
      in max 0 (100 - totalDeductions))"

text \<open>The number of findings of one severity in a list.\<close>

definition count_sev :: "Severity \<Rightarrow> ValidationResult list \<Rightarrow> int" where
  "count_sev s rs = int (length (filter (\<lambda>r. severity r = s) rs))"

section \<open>Notions used in the statements\<close>

text \<open>The duration multiplier in the words of the specification: 1.0 up to 180 days, 1.2
  above 180, 1.5 above 500, 2.0 above 1000.\<close>

definition spec_duration_multiplier :: "real \<Rightarrow> real" where
  "spec_duration_multiplier d =
     (if d \<le> 180 then 1.0 else if d \<le> 500 then 1.2 else if d \<le> 1000 then 1.5 else 2.0)"


text \<open>A field that is present and negative.\<close>

definition negative :: "real option \<Rightarrow> bool" where
  "negative x = (case x of None \<Rightarrow> False | Some v \<Rightarrow> v < 0)"

text \<open>A finding of severity error, as \<^verbatim>\<open>validateSafetyRequirements\<close> builds it.\<close>

definition missing_command :: ValidationResult where
  "missing_command =
     \<lparr>category = Cat_safety, severity = Sev_error,
      message = [Str ''Missing essential module: '', Str ''command''],
      suggestion = Some [Str ''Add '', Str ''command'', Str '' module for mission safety''],
      affectedModules = None,
      complianceStandard = [Str ''NASA-STD-3001-V2'']\<rparr>"


text \<open>A cylinder of diameter 10 and height 2.\<close>

definition wide_cylinder :: HabitatDimensions where
  "wide_cylinder = (only_shape CYLINDER)\<lparr>radius := Some 5, height := Some 2\<rparr>"

text \<open>Sample inputs: a mission of four for 180 days on the SLS Block 1, a module with
  given id, type, name and volume, and a design around given dimensions, modules and
  connections.\<close>

definition sample_mission :: MissionParameters where
  "sample_mission =
     \<lparr>crewSize = 4, duration = 180, destination = LUNAR_SURFACE,
      launchVehicle = ''sls_block_1'', missionType = Exploration,
      emergencyEvacuation = False\<rparr>"

definition sample_module :: "string \<Rightarrow> ModuleType \<Rightarrow> string \<Rightarrow> real \<Rightarrow> FunctionalModule" where
  "sample_module i t n v =
     \<lparr>id_m = i, type_m = t, name_m = n, description_m = [], volume = v, mass = 1000,
      powerRequirement = 1, crewCapacity = 2, essential_m = False,
      adjacencyRequirements = [], adjacencyRestrictions = []\<rparr>"

definition sample_design ::
  "HabitatDimensions \<Rightarrow> FunctionalModule list \<Rightarrow> Connection list \<Rightarrow> HabitatDesign" where
  "sample_design dims ms cs =
     \<lparr>dimensions = dims, missionParameters = sample_mission, modules = ms, connections = cs,
      totalVolume = 600, pressurizedVolume = 600, netHabitableVolume = 600,
      totalMass = 20000, powerRequirement_d = 10\<rparr>"

text \<open>A design with a habitation and a laboratory module and no recreation module.\<close>

definition no_recreation :: HabitatDesign where
  "no_recreation =
     sample_design ((only_shape CYLINDER)\<lparr>radius := Some 4, height := Some 12\<rparr>)
       [sample_module ''hab'' HABITATION ''Crew Quarters'' 100,
        sample_module ''lab'' LABORATORY ''Science Lab'' 100] []"

text \<open>A cylinder design whose radius is missing, and a design of custom shape.\<close>

definition no_radius :: HabitatDesign where
  "no_radius = sample_design ((only_shape CYLINDER)\<lparr>height := Some 12\<rparr>) [] []"

definition custom_design :: HabitatDesign where
  "custom_design = sample_design (only_shape CUSTOM) [] []"

text \<open>The findings of the six sub-checks in order, given those of the launch sub-check.\<close>

definition six_checks :: "HabitatDesign \<Rightarrow> ValidationResult list \<Rightarrow> ValidationResult list" where
  "six_checks d launch =
     validateVolumeRequirements d @ launch @ validateCrewRequirements d
     @ validateSafetyRequirements d @ validateModuleRequirements d
     @ validateLifeSupportRequirements d"

text \<open>The minimum volume \<^verbatim>\<open>MODULE_TYPES\<close> holds for a module type, found as the source finds it:
  by the upper-cased value of the type.\<close>

definition min_volume_of :: "ModuleType \<Rightarrow> real option" where
  "min_volume_of t = map_option min_volume (map_of MODULE_TYPES (toUpperCase (type_str t)))"

text \<open>The required ids of a module that no connection links to it, and the restricted ids
  that a connection does link to it.\<close>

definition unmet_requirements :: "HabitatDesign \<Rightarrow> FunctionalModule \<Rightarrow> string list" where
  "unmet_requirements d m =
     filter (\<lambda>r. \<not> hasConnection d (id_m m) r) (adjacencyRequirements m)"

definition violated_restrictions :: "HabitatDesign \<Rightarrow> FunctionalModule \<Rightarrow> string list" where
  "violated_restrictions d m =
     filter (\<lambda>r. hasConnection d (id_m m) r) (adjacencyRestrictions m)"

text \<open>The findings of the adjacency category, by severity, and those that cite a module and
  another id in this order.\<close>

definition is_adjacency_warning :: "ValidationResult \<Rightarrow> bool" where
  "is_adjacency_warning f = (category f = Cat_adjacency \<and> severity f = Sev_warning)"

definition is_adjacency_error :: "ValidationResult \<Rightarrow> bool" where
  "is_adjacency_error f = (category f = Cat_adjacency \<and> severity f = Sev_error)"

definition warnings_citing :: "string \<Rightarrow> string \<Rightarrow> ValidationResult list \<Rightarrow> ValidationResult list" where
  "warnings_citing a b fs =
     filter (\<lambda>f. is_adjacency_warning f \<and> affectedModules f = Some [a, b]) fs"

definition errors_citing :: "string \<Rightarrow> string \<Rightarrow> ValidationResult list \<Rightarrow> ValidationResult list" where
  "errors_citing a b fs =
     filter (\<lambda>f. is_adjacency_error f \<and> affectedModules f = Some [a, b]) fs"

text \<open>The design after \<^verbatim>\<open>addConnection\<close> of the store: the new connection is appended.\<close>

definition add_connection :: "HabitatDesign \<Rightarrow> Connection \<Rightarrow> HabitatDesign" where
  "add_connection d c = d\<lparr>connections := connections d @ [c]\<rparr>"

text \<open>A connection that links two ids, in either direction.\<close>

definition links :: "Connection \<Rightarrow> string \<Rightarrow> string \<Rightarrow> bool" where
  "links c a b = ((fromModuleId c = a \<and> toModuleId c = b) \<or> (toModuleId c = a \<and> fromModuleId c = b))"

text \<open>A finding that cites two ids, in either order.\<close>

definition cites :: "ValidationResult \<Rightarrow> string \<Rightarrow> string \<Rightarrow> bool" where
  "cites f a b = (affectedModules f = Some [a, b] \<or> affectedModules f = Some [b, a])"

text \<open>Some module with id \<open>a\<close> lists \<open>b\<close> among its adjacency restrictions.\<close>

definition restricts :: "HabitatDesign \<Rightarrow> string \<Rightarrow> string \<Rightarrow> bool" where
  "restricts d a b = list_ex (\<lambda>m. id_m m = a \<and> b \<in> set (adjacencyRestrictions m)) (modules d)"

text \<open>Every finding but the adjacency warnings that cite \<open>a\<close> and \<open>b\<close>.\<close>

definition kept :: "string \<Rightarrow> string \<Rightarrow> ValidationResult \<Rightarrow> bool" where
  "kept a b f = (\<not> (is_adjacency_warning f \<and> cites f a b))"

text \<open>More sample inputs: a cylinder of radius 4 and height 12; a command module of one cubic
  metre; a module \<open>a\<close> that requires adjacency to \<open>b\<close> (once, twice, and while also
  restricting it); the module \<open>b\<close>; the connection the store builds between them; and
  designs made of these.\<close>

definition cylinder_4_12 :: HabitatDimensions where
  "cylinder_4_12 = (only_shape CYLINDER)\<lparr>radius := Some 4, height := Some 12\<rparr>"

definition small_command :: FunctionalModule where
  "small_command = sample_module ''cmd'' COMMAND ''Command Center'' 1"

definition mod_a :: FunctionalModule where
  "mod_a = (sample_module ''a'' LABORATORY ''Lab A'' 30)\<lparr>adjacencyRequirements := [''b'']\<rparr>"

definition mod_a_twice :: FunctionalModule where
  "mod_a_twice = mod_a\<lparr>adjacencyRequirements := [''b'', ''b'']\<rparr>"

definition mod_a_conflict :: FunctionalModule where
  "mod_a_conflict = mod_a\<lparr>adjacencyRestrictions := [''b'']\<rparr>"

definition mod_b :: FunctionalModule where
  "mod_b = sample_module ''b'' HABITATION ''Hab B'' 30"

definition conn_ab :: Connection where
  "conn_ab =
     \<lparr>id_c = ''c1'', fromModuleId = ''a'', toModuleId = ''b'', type_c = Corridor,
      diameter_c = 0.8, length_c = 2.0, pressurized = True, bidirectional = True\<rparr>"

definition lonely_pair :: HabitatDesign where
  "lonely_pair = sample_design cylinder_4_12 [mod_a, mod_b] []"

definition raising_pair :: HabitatDesign where
  "raising_pair = sample_design (only_shape CUSTOM) [mod_a, mod_b] []"

definition dup_pair :: HabitatDesign where
  "dup_pair = sample_design cylinder_4_12 [mod_a_twice, mod_b] []"

definition conflict_pair :: HabitatDesign where
  "conflict_pair = sample_design cylinder_4_12 [mod_a_conflict, mod_b] []"

definition cramped :: HabitatDesign where
  "cramped = sample_design cylinder_4_12 [small_command] []"

definition cramped_custom :: HabitatDesign where
  "cramped_custom = sample_design (only_shape CUSTOM) [small_command] []"


section \<open>Properties of the compliance score\<close>

lemma foldl_deduct:
  "foldl deduct a rs =
     a + 15 * count_sev Sev_error rs + 5 * count_sev Sev_warning rs + count_sev Sev_info rs"
proof (induction rs arbitrary: a)
  case Nil
  show ?case by (simp add: count_sev_def)
next
  case (Cons r rs)
  have "foldl deduct a (r # rs) = foldl deduct (deduct a r) rs"
    by simp
  also have "\<dots> = deduct a r + 15 * count_sev Sev_error rs + 5 * count_sev Sev_warning rs
                      + count_sev Sev_info rs"
    by (rule Cons.IH)
  also have "\<dots> = a + 15 * count_sev Sev_error (r # rs) + 5 * count_sev Sev_warning (r # rs)
                      + count_sev Sev_info (r # rs)"
    by (cases "severity r") (simp_all add: deduct.simps count_sev_def)
  finally show ?case .
qed

lemma count_sev_nonneg: "0 \<le> count_sev s rs"
  by (simp add: count_sev_def)

text \<open>
  C3. The score is 100 minus 15 per error, 5 per warning and 1 per info finding, clamped
  to the range from 0 to 100; the empty list scores 100, two error findings score 70, and
  no list scores below 0.
\<close>

theorem calculateComplianceScore_spec:
  "calculateComplianceScore rs =
     max 0 (min 100 (100 - 15 * count_sev Sev_error rs - 5 * count_sev Sev_warning rs
                       - 1 * count_sev Sev_info rs))
   \<and> calculateComplianceScore [] = 100
   \<and> (severity e1 = Sev_error \<and> severity e2 = Sev_error
        \<longrightarrow> calculateComplianceScore [e1, e2] = 70)
   \<and> 0 \<le> calculateComplianceScore rs \<and> calculateComplianceScore rs \<le> 100"
proof -
  have n: "0 \<le> count_sev Sev_error rs" "0 \<le> count_sev Sev_warning rs"
    "0 \<le> count_sev Sev_info rs"
    by (rule count_sev_nonneg)+
  have a: "calculateComplianceScore rs =
     max 0 (100 - 15 * count_sev Sev_error rs - 5 * count_sev Sev_warning rs
              - count_sev Sev_info rs)"
    by (simp add: calculateComplianceScore_def foldl_deduct)
  have b: "calculateComplianceScore [] = 100"
    by (simp add: calculateComplianceScore_def)
  have c: "severity e1 = Sev_error \<and> severity e2 = Sev_error
        \<longrightarrow> calculateComplianceScore [e1, e2] = 70"
    by (simp add: calculateComplianceScore_def deduct.simps)
  from a b c n show ?thesis by auto
qed

theorem calculateComplianceScore_spec_witness:
  "severity missing_command = Sev_error
   \<and> calculateComplianceScore [missing_command, missing_command] = 70
   \<and> calculateComplianceScore
         [missing_command, missing_command, missing_command, missing_command,
          missing_command, missing_command, missing_command] = 0"
proof -
  have s: "severity missing_command = Sev_error"
    by (simp add: missing_command_def)
  have two: "calculateComplianceScore [missing_command, missing_command] = 70"
    using calculateComplianceScore_spec [of "[]" missing_command missing_command] s by blast
  have seven: "calculateComplianceScore
         [missing_command, missing_command, missing_command, missing_command,
          missing_command, missing_command, missing_command] = 0"
    using calculateComplianceScore_spec
      [of "[missing_command, missing_command, missing_command, missing_command,
            missing_command, missing_command, missing_command]" missing_command missing_command] s
    by (simp add: count_sev_def)
  from s two seven show ?thesis by blast
qed

section \<open>Properties of the required habitable volume\<close>

text \<open>
  C5. The required minimum and optimal Net Habitable Volume are the crew size times the
  per-crew constant times the duration multiplier of the specification; a duration of
  exactly 180 days uses 1.0 and a duration of 181 days uses 1.2.
\<close>

theorem calculateRequiredNHV_spec:
  "minimum (calculateRequiredNHV c d) = c * NHV_PER_CREW_MINIMUM * spec_duration_multiplier d
   \<and> optimal (calculateRequiredNHV c d) = c * NHV_PER_CREW_OPTIMAL * spec_duration_multiplier d
   \<and> minimum (calculateRequiredNHV c 180) = c * NHV_PER_CREW_MINIMUM * 1.0
   \<and> optimal (calculateRequiredNHV c 180) = c * NHV_PER_CREW_OPTIMAL * 1.0
   \<and> minimum (calculateRequiredNHV c 181) = c * NHV_PER_CREW_MINIMUM * 1.2
   \<and> optimal (calculateRequiredNHV c 181) = c * NHV_PER_CREW_OPTIMAL * 1.2"
  by (simp add: calculateRequiredNHV_def spec_duration_multiplier_def Let_def)

section \<open>Properties of the volume\<close>

lemma or_default_le0: "0 < d \<Longrightarrow> (or_default x d \<le> 0) = negative x"
  by (auto simp: or_default_def negative_def split: option.splits)

text \<open>
  C1, as the claim states it, fails: a cylinder whose radius is absent, or zero, is given
  the default radius 4 and a volume is returned.
\<close>

theorem calculateVolume_default_counterexample:
  "calculateVolume ((only_shape CYLINDER)\<lparr>height := Some 12\<rparr>) = Inr (pi * 4 ^ 2 * 12)
   \<and> calculateVolume ((only_shape CYLINDER)\<lparr>radius := Some 0, height := Some 12\<rparr>)
       = Inr (pi * 4 ^ 2 * 12)"
  by (simp add: calculateVolume_def only_shape_def or_default_def)

text \<open>
  C1, amended. For each of the six shape tags with a formula, \<^verbatim>\<open>calculateVolume\<close> fails,
  with the error ``requires positive'', exactly when a field it reads for that tag is
  present and negative. Otherwise it returns the formula of the tag on the fields read,
  each field that is absent or zero replaced inside the function by its default:
  cylinder radius 4 and height 12, sphere radius 5, torus radii 8 and 3, dome radius 6 and
  height 4, inflatable radius 4 and height 10, modular 10 by 8 by 6.
\<close>

theorem calculateVolume_fails_iff:
  "(shape d = CYLINDER \<longrightarrow>
      calculateVolume d =
        (if negative (radius d) \<or> negative (height d) then Inl (RequiresPositive CYLINDER)
         else Inr (pi * or_default (radius d) 4 ^ 2 * or_default (height d) 12)))
   \<and> (shape d = SPHERE \<longrightarrow>
      calculateVolume d =
        (if negative (sphereRadius d) then Inl (RequiresPositive SPHERE)
         else Inr ((4 / 3) * pi * or_default (sphereRadius d) 5 ^ 3)))
   \<and> (shape d = TORUS \<longrightarrow>
      calculateVolume d =
        (if negative (majorRadius d) \<or> negative (minorRadius d)
         then Inl (RequiresPositive TORUS)
         else Inr (2 * pi ^ 2 * or_default (majorRadius d) 8 * or_default (minorRadius d) 3 ^ 2)))
   \<and> (shape d = DOME \<longrightarrow>
      calculateVolume d =
        (if negative (domeRadius d) \<or> negative (domeHeight d) then Inl (RequiresPositive DOME)
         else Inr ((pi * or_default (domeHeight d) 4 * or_default (domeHeight d) 4
                     * (3 * or_default (domeRadius d) 6 - or_default (domeHeight d) 4)) / 3)))
   \<and> (shape d = INFLATABLE \<longrightarrow>
      calculateVolume d =
        (if negative (inflatedRadius d) \<or> negative (inflatedHeight d)
         then Inl (RequiresPositive INFLATABLE)
         else Inr (pi * or_default (inflatedRadius d) 4 ^ 2 * or_default (inflatedHeight d) 10)))
   \<and> (shape d = MODULAR \<longrightarrow>
      calculateVolume d =
        (if negative (length_d d) \<or> negative (width d) \<or> negative (height d)
         then Inl (RequiresPositive MODULAR)
         else Inr (or_default (length_d d) 10 * or_default (width d) 8
                     * or_default (height d) 6)))
   \<and> or_default None dflt = dflt \<and> or_default (Some 0) dflt = dflt
   \<and> (v \<noteq> 0 \<longrightarrow> or_default (Some v) dflt = v)
   \<and> (negative x \<longleftrightarrow> (\<exists>w. x = Some w \<and> w < 0))"
proof -
  have 1: "calculateVolume d =
        (if negative (radius d) \<or> negative (height d) then Inl (RequiresPositive CYLINDER)
         else Inr (pi * or_default (radius d) 4 ^ 2 * or_default (height d) 12))"
    if "shape d = CYLINDER"
    using that by (simp add: calculateVolume_def Let_def or_default_le0)
  have 2: "calculateVolume d =
        (if negative (sphereRadius d) then Inl (RequiresPositive SPHERE)
         else Inr ((4 / 3) * pi * or_default (sphereRadius d) 5 ^ 3))"
    if "shape d = SPHERE"
    using that by (simp add: calculateVolume_def Let_def or_default_le0)
  have 3: "calculateVolume d =
        (if negative (majorRadius d) \<or> negative (minorRadius d)
         then Inl (RequiresPositive TORUS)
         else Inr (2 * pi ^ 2 * or_default (majorRadius d) 8 * or_default (minorRadius d) 3 ^ 2))"
    if "shape d = TORUS"
    using that by (simp add: calculateVolume_def Let_def or_default_le0)
  have 4: "calculateVolume d =
        (if negative (domeRadius d) \<or> negative (domeHeight d) then Inl (RequiresPositive DOME)
         else Inr ((pi * or_default (domeHeight d) 4 * or_default (domeHeight d) 4
                     * (3 * or_default (domeRadius d) 6 - or_default (domeHeight d) 4)) / 3))"
    if "shape d = DOME"
    using that by (simp add: calculateVolume_def Let_def or_default_le0)
  have 5: "calculateVolume d =
        (if negative (inflatedRadius d) \<or> negative (inflatedHeight d)
         then Inl (RequiresPositive INFLATABLE)
         else Inr (pi * or_default (inflatedRadius d) 4 ^ 2 * or_default (inflatedHeight d) 10))"
    if "shape d = INFLATABLE"
    using that by (simp add: calculateVolume_def Let_def or_default_le0)
  have 6: "calculateVolume d =
        (if negative (length_d d) \<or> negative (width d) \<or> negative (height d)
         then Inl (RequiresPositive MODULAR)
         else Inr (or_default (length_d d) 10 * or_default (width d) 8
                     * or_default (height d) 6))"
    if "shape d = MODULAR"
    using that by (simp add: calculateVolume_def Let_def or_default_le0)
  have 7: "or_default None dflt = dflt" "or_default (Some 0) dflt = dflt"
    "v \<noteq> 0 \<longrightarrow> or_default (Some v) dflt = v"
    by (simp_all add: or_default_def)
  have 8: "negative x \<longleftrightarrow> (\<exists>w. x = Some w \<and> w < 0)"
    by (cases x) (simp_all add: negative_def)
  from 1 2 3 4 5 6 7 8 show ?thesis by blast
qed

theorem calculateVolume_fails_iff_witness:
  "shape ((only_shape CYLINDER)\<lparr>radius := Some (- 1), height := Some 12\<rparr>) = CYLINDER
   \<and> calculateVolume ((only_shape CYLINDER)\<lparr>radius := Some (- 1), height := Some 12\<rparr>)
       = Inl (RequiresPositive CYLINDER)
   \<and> shape ((only_shape CYLINDER)\<lparr>radius := Some 0\<rparr>) = CYLINDER
   \<and> calculateVolume ((only_shape CYLINDER)\<lparr>radius := Some 0\<rparr>) = Inr (pi * 4 ^ 2 * 12)
   \<and> shape ((only_shape SPHERE)\<lparr>sphereRadius := Some 2\<rparr>) = SPHERE
   \<and> calculateVolume ((only_shape SPHERE)\<lparr>sphereRadius := Some 2\<rparr>) = Inr ((4 / 3) * pi * 2 ^ 3)
   \<and> shape (only_shape TORUS) = TORUS
   \<and> calculateVolume (only_shape TORUS) = Inr (2 * pi ^ 2 * 8 * 3 ^ 2)
   \<and> shape (only_shape DOME) = DOME
   \<and> calculateVolume (only_shape DOME) = Inr ((pi * 4 * 4 * (3 * 6 - 4)) / 3)
   \<and> shape (only_shape INFLATABLE) = INFLATABLE
   \<and> calculateVolume (only_shape INFLATABLE) = Inr (pi * 4 ^ 2 * 10)
   \<and> shape (only_shape MODULAR) = MODULAR
   \<and> calculateVolume (only_shape MODULAR) = Inr (10 * 8 * 6)
   \<and> (2::real) \<noteq> 0 \<and> or_default (Some 2) 5 = 2"
  using calculateVolume_fails_iff [where d = "(only_shape CYLINDER)\<lparr>radius := Some (- 1), height := Some 12\<rparr>"]
    calculateVolume_fails_iff [where d = "(only_shape CYLINDER)\<lparr>radius := Some 0\<rparr>" and dflt = 4]
    calculateVolume_fails_iff [where d = "(only_shape SPHERE)\<lparr>sphereRadius := Some 2\<rparr>" and v = 2 and dflt = 5]
    calculateVolume_fails_iff [where d = "only_shape TORUS" and dflt = 8]
    calculateVolume_fails_iff [where d = "only_shape TORUS" and dflt = 3]
    calculateVolume_fails_iff [where d = "only_shape DOME" and dflt = 6]
    calculateVolume_fails_iff [where d = "only_shape DOME" and dflt = 4]
    calculateVolume_fails_iff [where d = "only_shape INFLATABLE" and dflt = 10]
    calculateVolume_fails_iff [where d = "only_shape MODULAR" and dflt = 10]
    calculateVolume_fails_iff [where d = "only_shape MODULAR" and dflt = 8]
    calculateVolume_fails_iff [where d = "only_shape MODULAR" and dflt = 6]
    calculateVolume_fails_iff [where d = "(only_shape CYLINDER)\<lparr>radius := Some 0\<rparr>" and dflt = 12]
  by (simp add: only_shape_def negative_def)







section \<open>Properties of the recommended dimensions\<close>


lemma rec_not_impl:
  "s \<in> {TORUS, DOME, INFLATABLE, CUSTOM} \<Longrightarrow>
     generateRecommendedDimensions s V a = Inl (NotImplemented s)"
  by (auto simp: generateRecommendedDimensions_def)








section \<open>Properties of the launch check\<close>

lemma getMaxDiameter_le: "getMaxDiameter d fd \<le> fd"
  by (cases "shape d") (simp_all add: getMaxDiameter_def Let_def)

text \<open>The branch that reports a diameter violation is never taken: the diameter compared
  with the fairing diameter has been clamped to it.\<close>

lemma no_diameter_violation:
  assumes "0 \<le> fd" "checkLaunchConstraints d fd fh mm = Inr r"
  shows "diameter_violation x y \<notin> set (violations r)"
proof -
  have "\<not> quotient_greater (getMaxDiameter d fd) fd 1"
    using getMaxDiameter_le [of d fd] assms(1)
    by (auto simp: quotient_greater_def field_simps)
  with assms(2) show ?thesis
    by (auto simp: checkLaunchConstraints_def Let_def diameter_violation_def
        height_violation_def mass_violation_def split: sum.splits if_splits)
qed

text \<open>
  C4 at a failing input: a cylinder of diameter 10 is checked against a fairing of
  diameter 9, height 18 and mass limit 150000; its height and its structural mass are
  below the limits. The claim requires exactly one diameter violation; the source returns
  \<open>fits = true\<close> and no violation, with a diameter utilization of 1.
\<close>

theorem checkLaunchConstraints_wide_cylinder:
  "2 * 5 > (9::real)
   \<and> (\<exists>r. checkLaunchConstraints wide_cylinder 9 18 150000 = Inr r
          \<and> fits r \<and> violations r = [] \<and> diameter_u (utilizationFactors r) = 1)"
proof -
  have a: "calculateSurfaceArea wide_cylinder = Inr (70 * pi)"
    by (simp add: calculateSurfaceArea_def wide_cylinder_def only_shape_def falsy_def)
  have m: "calculateStructuralMass wide_cylinder default_wallThickness default_materialDensity
             = Inr (18900 * pi)"
    by (simp add: calculateStructuralMass_def a default_wallThickness_def
        default_materialDensity_def)
  have d: "getMaxDiameter wide_cylinder 9 = 9"
    by (simp add: getMaxDiameter_def wide_cylinder_def only_shape_def twice_or_def)
  have h: "getEffectiveHeight wide_cylinder = 2"
    by (simp add: getEffectiveHeight_def wide_cylinder_def only_shape_def or_default_def)
  have p: "\<not> quotient_greater (18900 * pi) 150000 1"
    using pi_less_4 by (simp add: quotient_greater_def)
  show ?thesis
    using p by (simp add: checkLaunchConstraints_def m d h Let_def quotient_greater_def)
qed

section \<open>Properties of the functional-area sub-check\<close>

text \<open>The sub-check has two tests, for the sleep and the work area.\<close>

lemma functional_area_findings: "length (validateFunctionalAreaVolumes d) \<le> 2"
  by (simp add: validateFunctionalAreaVolumes_def Let_def)

text \<open>
  C7 at a failing input: a crew of four with 100 cubic metres of habitation, 100 of
  laboratory and no recreation module. The recreation volume 0 is below the 40 required
  for the common area, so the claim requires one common-area warning; the source computes
  both numbers, compares them nowhere, and returns no finding.
\<close>

theorem validateFunctionalAreaVolumes_no_recreation:
  "getVolumeByType (modules no_recreation) RECREATION
     < crewSize (missionParameters no_recreation) * COMMON_AREA_PER_CREW
   \<and> validateFunctionalAreaVolumes no_recreation = []"
  by (simp add: validateFunctionalAreaVolumes_def no_recreation_def sample_design_def
      sample_mission_def sample_module_def getVolumeByType_def Let_def
      COMMON_AREA_PER_CREW_def SLEEP_VOLUME_PER_CREW_def WORK_VOLUME_PER_CREW_def)

section \<open>When the validation returns\<close>

lemma upper_sls: "toUpperCase ''sls_block_1'' = ''SLS_BLOCK_1''"
  by (simp add: toUpperCase_def upper_char_def)

lemma sample_fairing:
  "map_of PAYLOAD_FAIRINGS (toUpperCase (launchVehicle (missionParameters (sample_design dims ms cs))))
     = Some \<lparr>diameter_f = 5.0, height_f = 19.1, volume_f = 374, mass_limit = 27000,
              label_f = ''NASA SLS Block 1''\<rparr>"
  by (simp add: sample_design_def sample_mission_def upper_sls PAYLOAD_FAIRINGS_def)

lemma clc_isl:
  "checkLaunchConstraints d fd fh mm = Inl e \<longleftrightarrow> calculateSurfaceArea d = Inl e"
  by (simp add: checkLaunchConstraints_def calculateStructuralMass_def Let_def split: sum.splits)

lemma vlc_unknown:
  "map_of PAYLOAD_FAIRINGS (toUpperCase (launchVehicle (missionParameters d))) = None
    \<Longrightarrow> validateLaunchConstraints d = Inr [unknown_vehicle (launchVehicle (missionParameters d))]"
  by (simp add: validateLaunchConstraints_def Let_def)

lemma vlc_error:
  "map_of PAYLOAD_FAIRINGS (toUpperCase (launchVehicle (missionParameters d))) = Some f
    \<Longrightarrow> calculateSurfaceArea (dimensions d) = Inl e
    \<Longrightarrow> validateLaunchConstraints d = Inl e"
  using clc_isl [of "dimensions d" "diameter_f f" "height_f f" "mass_limit f" e]
  by (simp add: validateLaunchConstraints_def Let_def)

lemma vlc_returns:
  "map_of PAYLOAD_FAIRINGS (toUpperCase (launchVehicle (missionParameters d))) = Some f
    \<Longrightarrow> calculateSurfaceArea (dimensions d) = Inr a
    \<Longrightarrow> \<exists>rs. validateLaunchConstraints d = Inr rs"
  using clc_isl [of "dimensions d" "diameter_f f" "height_f f" "mass_limit f"]
  by (auto simp add: validateLaunchConstraints_def Let_def split: sum.splits)

lemma vd_Inr:
  "validateLaunchConstraints d = Inr rs \<Longrightarrow> validateDesign d = Inr (six_checks d rs)"
  by (simp add: validateDesign_def six_checks_def Let_def)

lemma vd_Inl:
  "validateLaunchConstraints d = Inl e \<Longrightarrow> validateDesign d = Inl e"
  by (simp add: validateDesign_def Let_def)

lemma vd_returns:
  "validateDesign d = Inr fs \<Longrightarrow>
     \<exists>launch. validateLaunchConstraints d = Inr launch \<and> fs = six_checks d launch"
  by (auto simp: validateDesign_def six_checks_def Let_def split: sum.splits)

text \<open>
  C2, as the claim states it, fails: for a cylinder without a radius on a known launch
  vehicle the surface area throws inside the launch sub-check, and \<^verbatim>\<open>validateDesign\<close>
  throws with it; no finding of any sub-check is returned.
\<close>

theorem validateDesign_raises_counterexample:
  "validateDesign no_radius = Inl (RequiresFields CYLINDER)"
  by (simp add: validateDesign_def validateLaunchConstraints_def no_radius_def sample_design_def
      sample_mission_def upper_sls PAYLOAD_FAIRINGS_def checkLaunchConstraints_def
      calculateStructuralMass_def calculateSurfaceArea_def only_shape_def falsy_def Let_def)

text \<open>
  C2, amended. When the launch vehicle is unknown, or the surface area of the shape can be
  computed, \<^verbatim>\<open>validateDesign\<close> runs the six sub-checks in order and returns their findings
  without raising. When the launch vehicle is known and the surface area of the shape
  throws, the error leaves \<^verbatim>\<open>validateDesign\<close> and no finding is returned.
\<close>

theorem validateDesign_returns_or_raises:
  "(map_of PAYLOAD_FAIRINGS (toUpperCase (launchVehicle (missionParameters d))) = None
      \<or> (\<exists>a. calculateSurfaceArea (dimensions d) = Inr a)
     \<longrightarrow> (\<exists>launch. validateLaunchConstraints d = Inr launch
            \<and> validateDesign d = Inr (six_checks d launch)))
   \<and> (map_of PAYLOAD_FAIRINGS (toUpperCase (launchVehicle (missionParameters d))) = Some f
        \<and> calculateSurfaceArea (dimensions d) = Inl e
      \<longrightarrow> validateDesign d = Inl e)"
proof -
  have 1: "\<exists>launch. validateLaunchConstraints d = Inr launch
            \<and> validateDesign d = Inr (six_checks d launch)"
    if "map_of PAYLOAD_FAIRINGS (toUpperCase (launchVehicle (missionParameters d))) = None
      \<or> (\<exists>a. calculateSurfaceArea (dimensions d) = Inr a)"
  proof -
    have "\<exists>rs. validateLaunchConstraints d = Inr rs"
    proof (cases "map_of PAYLOAD_FAIRINGS (toUpperCase (launchVehicle (missionParameters d)))")
      case None
      then show ?thesis by (simp add: vlc_unknown)
    next
      case (Some g)
      with that obtain a where "calculateSurfaceArea (dimensions d) = Inr a" by auto
      with Some show ?thesis by (rule vlc_returns)
    qed
    then show ?thesis using vd_Inr by blast
  qed
  have 2: "validateDesign d = Inl e"
    if "map_of PAYLOAD_FAIRINGS (toUpperCase (launchVehicle (missionParameters d))) = Some f"
      "calculateSurfaceArea (dimensions d) = Inl e"
    using vlc_error [OF that] by (rule vd_Inl)
  from 1 2 show ?thesis by blast
qed

theorem validateDesign_returns_or_raises_witness:
  "(\<exists>a. calculateSurfaceArea (dimensions no_recreation) = Inr a)
   \<and> (\<exists>launch. validateLaunchConstraints no_recreation = Inr launch
          \<and> validateDesign no_recreation = Inr (six_checks no_recreation launch))
   \<and> map_of PAYLOAD_FAIRINGS (toUpperCase (launchVehicle (missionParameters custom_design)))
       = Some \<lparr>diameter_f = 5.0, height_f = 19.1, volume_f = 374, mass_limit = 27000,
                label_f = ''NASA SLS Block 1''\<rparr>
   \<and> calculateSurfaceArea (dimensions custom_design) = Inl (UnsupportedShape CUSTOM)
   \<and> validateDesign custom_design = Inl (UnsupportedShape CUSTOM)"
proof -
  have a: "calculateSurfaceArea (dimensions no_recreation) = Inr (2 * pi * 4 * (4 + 12))"
    by (simp add: no_recreation_def sample_design_def calculateSurfaceArea_def only_shape_def
        falsy_def)
  have f: "map_of PAYLOAD_FAIRINGS (toUpperCase (launchVehicle (missionParameters custom_design)))
       = Some \<lparr>diameter_f = 5.0, height_f = 19.1, volume_f = 374, mass_limit = 27000,
                label_f = ''NASA SLS Block 1''\<rparr>"
    unfolding custom_design_def by (rule sample_fairing)
  have e: "calculateSurfaceArea (dimensions custom_design) = Inl (UnsupportedShape CUSTOM)"
    by (simp add: custom_design_def sample_design_def calculateSurfaceArea_def only_shape_def)
  from a have a': "\<exists>a. calculateSurfaceArea (dimensions no_recreation) = Inr a" ..
  from validateDesign_returns_or_raises [of no_recreation] a'
  have 1: "\<exists>launch. validateLaunchConstraints no_recreation = Inr launch
          \<and> validateDesign no_recreation = Inr (six_checks no_recreation launch)"
    by blast
  from validateDesign_returns_or_raises [of custom_design] f e
  have 2: "validateDesign custom_design = Inl (UnsupportedShape CUSTOM)"
    by blast
  from a' 1 f e 2 show ?thesis by blast
qed

section \<open>Properties of the module sub-check\<close>

lemma min_volume_table:
  "min_volume_of COMMAND = Some 15" "min_volume_of HABITATION = Some 20"
  "min_volume_of LABORATORY = Some 25" "min_volume_of LOGISTICS = Some 10"
  "min_volume_of EXERCISE = Some 15" "min_volume_of MEDICAL = Some 8"
  "min_volume_of AIRLOCK = Some 6" "min_volume_of GREENHOUSE = Some 20"
  "min_volume_of WORKSHOP = None" "min_volume_of RECREATION = None"
  by (simp_all add: min_volume_of_def MODULE_TYPES_def toUpperCase_def upper_char_def)

lemma concat_map_if:
  "concat (map (\<lambda>x. if P x then [f x] else []) xs) = map f (filter P xs)"
  by (induction xs) simp_all

lemma check_requirements_eq:
  "check_requirements d m = map (adjacency_warning d m) (unmet_requirements d m)"
  by (simp add: check_requirements_def unmet_requirements_def concat_map_if)

lemma check_restrictions_eq:
  "check_restrictions d m = map (restriction_error d m) (violated_restrictions d m)"
  by (simp add: check_restrictions_def violated_restrictions_def concat_map_if)

lemma check_volume_cases:
  "check_volume m =
     (case map_of MODULE_TYPES (toUpperCase (type_str (type_m m))) of
        None \<Rightarrow> []
      | Some cfg \<Rightarrow> if volume m < min_volume cfg then [volume_warning m cfg] else [])"
  by (simp add: check_volume_def)

lemma check_volume_category: "f \<in> set (check_volume m) \<Longrightarrow> category f = Cat_volume"
  by (auto simp: check_volume_def volume_warning_def split: option.splits if_splits)

lemma functional_category:
  "f \<in> set (validateFunctionalAreaVolumes d) \<Longrightarrow> category f \<noteq> Cat_adjacency"
  by (auto simp: validateFunctionalAreaVolumes_def Let_def split: if_splits)

lemma volume_category:
  "f \<in> set (validateVolumeRequirements d) \<Longrightarrow> category f \<noteq> Cat_adjacency"
  by (auto simp: validateVolumeRequirements_def Let_def functional_category split: if_splits)

lemma launch_category:
  "validateLaunchConstraints d = Inr rs \<Longrightarrow> f \<in> set rs \<Longrightarrow> category f \<noteq> Cat_adjacency"
  by (auto simp: validateLaunchConstraints_def Let_def unknown_vehicle_def violation_finding_def
      split: option.splits sum.splits if_splits)

lemma crew_category:
  "f \<in> set (validateCrewRequirements d) \<Longrightarrow> category f \<noteq> Cat_adjacency"
  by (auto simp: validateCrewRequirements_def Let_def split: if_splits)

lemma safety_category:
  "f \<in> set (validateSafetyRequirements d) \<Longrightarrow> category f \<noteq> Cat_adjacency"
  by (auto simp: validateSafetyRequirements_def Let_def missing_essential_def split: if_splits)

lemma life_category:
  "f \<in> set (validateLifeSupportRequirements d) \<Longrightarrow> category f \<noteq> Cat_adjacency"
  by (auto simp: validateLifeSupportRequirements_def Let_def split: if_splits)

lemma filter_six_checks:
  assumes P: "\<And>f. P f \<Longrightarrow> category f = Cat_adjacency"
    and l: "validateLaunchConstraints d = Inr launch"
  shows "filter P (six_checks d launch) = filter P (validateModuleRequirements d)"
proof -
  have "filter P (validateVolumeRequirements d) = []"
    using P volume_category by (fastforce simp: filter_empty_conv)
  moreover have "filter P launch = []"
    using P launch_category [OF l] by (fastforce simp: filter_empty_conv)
  moreover have "filter P (validateCrewRequirements d) = []"
    using P crew_category by (fastforce simp: filter_empty_conv)
  moreover have "filter P (validateSafetyRequirements d) = []"
    using P safety_category by (fastforce simp: filter_empty_conv)
  moreover have "filter P (validateLifeSupportRequirements d) = []"
    using P life_category by (fastforce simp: filter_empty_conv)
  ultimately show ?thesis by (simp add: six_checks_def)
qed

lemma warning_is: "is_adjacency_warning (adjacency_warning d m r)"
  by (simp add: is_adjacency_warning_def adjacency_warning_def)

lemma error_is_not_warning: "\<not> is_adjacency_warning (restriction_error d m r)"
  by (simp add: is_adjacency_warning_def restriction_error_def)

lemma error_is: "is_adjacency_error (restriction_error d m r)"
  by (simp add: is_adjacency_error_def restriction_error_def)

lemma warning_is_not_error: "\<not> is_adjacency_error (adjacency_warning d m r)"
  by (simp add: is_adjacency_error_def adjacency_warning_def)

lemma volume_not_adjacency:
  "f \<in> set (check_volume m) \<Longrightarrow> \<not> is_adjacency_warning f \<and> \<not> is_adjacency_error f"
  using check_volume_category [of f m]
  by (simp add: is_adjacency_warning_def is_adjacency_error_def)

lemma filter_warnings_module:
  "filter is_adjacency_warning (check_requirements d m)
     = map (adjacency_warning d m) (unmet_requirements d m)"
  "filter is_adjacency_warning (check_restrictions d m) = []"
  "filter is_adjacency_warning (check_volume m) = []"
proof -
  show "filter is_adjacency_warning (check_requirements d m)
          = map (adjacency_warning d m) (unmet_requirements d m)"
    by (simp add: check_requirements_eq filter_map o_def warning_is)
  show "filter is_adjacency_warning (check_restrictions d m) = []"
    by (simp add: check_restrictions_eq filter_map o_def error_is_not_warning)
  show "filter is_adjacency_warning (check_volume m) = []"
    using volume_not_adjacency by (simp add: filter_empty_conv)
qed

lemma filter_errors_module:
  "filter is_adjacency_error (check_requirements d m) = []"
  "filter is_adjacency_error (check_restrictions d m)
     = map (restriction_error d m) (violated_restrictions d m)"
  "filter is_adjacency_error (check_volume m) = []"
proof -
  show "filter is_adjacency_error (check_requirements d m) = []"
    by (simp add: check_requirements_eq filter_map o_def warning_is_not_error)
  show "filter is_adjacency_error (check_restrictions d m)
          = map (restriction_error d m) (violated_restrictions d m)"
    by (simp add: check_restrictions_eq filter_map o_def error_is)
  show "filter is_adjacency_error (check_volume m) = []"
    using volume_not_adjacency by (simp add: filter_empty_conv)
qed

lemma module_warnings:
  "filter is_adjacency_warning (validateModuleRequirements d)
     = concat (map (\<lambda>m. map (adjacency_warning d m) (unmet_requirements d m)) (modules d))"
  by (simp add: validateModuleRequirements_def filter_concat o_def filter_warnings_module)

lemma module_errors:
  "filter is_adjacency_error (validateModuleRequirements d)
     = concat (map (\<lambda>m. map (restriction_error d m) (violated_restrictions d m)) (modules d))"
  by (simp add: validateModuleRequirements_def filter_concat o_def filter_errors_module)

lemma concat_single:
  "distinct (map k ms) \<Longrightarrow> m \<in> set ms \<Longrightarrow> (\<And>m'. k m' \<noteq> k m \<Longrightarrow> h m' = [])
     \<Longrightarrow> concat (map h ms) = h m"
proof (induction ms)
  case Nil
  then show ?case by simp
next
  case (Cons a ms)
  show ?case
  proof (cases "a = m")
    case True
    have "\<And>x. x \<in> set ms \<Longrightarrow> h x = []"
    proof -
      fix x assume "x \<in> set ms"
      moreover from Cons.prems(1) True have "k m \<notin> k ` set ms" by simp
      ultimately have "k x \<noteq> k m" by (metis imageI)
      then show "h x = []" by (rule Cons.prems(3))
    qed
    then have "concat (map h ms) = []" by simp
    with True show ?thesis by simp
  next
    case False
    with Cons.prems have m: "m \<in> set ms" and "k a \<noteq> k m" by auto
    then have "h a = []" using Cons.prems(3) by blast
    moreover have "concat (map h ms) = h m"
      using Cons.IH Cons.prems(1) m Cons.prems(3) by simp
    ultimately show ?thesis by simp
  qed
qed

lemma filter_eq_single: "distinct xs \<Longrightarrow> x \<in> set xs \<Longrightarrow> filter (\<lambda>y. y = x) xs = [x]"
  by (induction xs) (auto simp: filter_empty_conv)

lemma volume_warning_in_module:
  assumes "m \<in> set (modules d)"
    "map_of MODULE_TYPES (toUpperCase (type_str (type_m m))) = Some cfg"
    "volume m < min_volume cfg"
  shows "volume_warning m cfg \<in> set (validateModuleRequirements d)"
proof -
  have "volume_warning m cfg \<in> set (check_volume m)"
    using assms(2,3) by (simp add: check_volume_def)
  with assms(1) show ?thesis
    by (auto simp: validateModuleRequirements_def)
qed

lemma module_in_six: "f \<in> set (validateModuleRequirements d) \<Longrightarrow> f \<in> set (six_checks d launch)"
  by (simp add: six_checks_def)

lemma no_entry_iff: "min_volume_of t = None \<longleftrightarrow> t \<in> {WORKSHOP, RECREATION}"
  by (cases t) (simp_all add: min_volume_table)

lemma no_entry_no_check: "min_volume_of (type_m m) = None \<Longrightarrow> check_volume m = []"
  by (simp add: min_volume_of_def check_volume_def)

text \<open>
  C9, amended. Whenever \<^verbatim>\<open>validateDesign\<close> returns its findings, every module of the design
  whose type has an entry in \<^verbatim>\<open>MODULE_TYPES\<close> and whose volume is below the minimum volume
  of that entry gets a warning of the volume category citing that module. The module
  types without an entry are workshop and recreation, and for a module of either type no
  volume check is made.
\<close>

theorem validateDesign_module_volume:
  "(validateDesign d = Inr fs \<and> m \<in> set (modules d)
      \<and> min_volume_of (type_m m) = Some v \<and> volume m < v
     \<longrightarrow> (\<exists>f \<in> set fs. severity f = Sev_warning \<and> category f = Cat_volume
                       \<and> affectedModules f = Some [id_m m]))
   \<and> (min_volume_of t = None \<longleftrightarrow> t \<in> {WORKSHOP, RECREATION})
   \<and> (type_m m \<in> {WORKSHOP, RECREATION} \<longrightarrow> check_volume m = [])"
proof -
  have 1: "\<exists>f \<in> set fs. severity f = Sev_warning \<and> category f = Cat_volume
                       \<and> affectedModules f = Some [id_m m]"
    if r: "validateDesign d = Inr fs" and m: "m \<in> set (modules d)"
      and v: "min_volume_of (type_m m) = Some v" "volume m < v"
  proof -
    from v(1) obtain cfg where
      cfg: "map_of MODULE_TYPES (toUpperCase (type_str (type_m m))) = Some cfg"
      and "min_volume cfg = v"
      by (auto simp: min_volume_of_def)
    with v(2) have "volume m < min_volume cfg" by simp
    with m cfg have "volume_warning m cfg \<in> set (validateModuleRequirements d)"
      by (rule volume_warning_in_module)
    moreover from r obtain launch where "fs = six_checks d launch"
      using vd_returns by blast
    ultimately have "volume_warning m cfg \<in> set fs"
      by (simp add: module_in_six)
    moreover have "severity (volume_warning m cfg) = Sev_warning"
      "category (volume_warning m cfg) = Cat_volume"
      "affectedModules (volume_warning m cfg) = Some [id_m m]"
      by (simp_all add: volume_warning_def)
    ultimately show ?thesis by blast
  qed
  have 3: "check_volume m = []" if "type_m m \<in> {WORKSHOP, RECREATION}"
    using that no_entry_iff [of "type_m m"] no_entry_no_check by blast
  from 1 no_entry_iff [of t] 3 show ?thesis by blast
qed

lemma unmet_distinct: "distinct (adjacencyRequirements m) \<Longrightarrow> distinct (unmet_requirements d m)"
  by (simp add: unmet_requirements_def)

lemma violated_distinct:
  "distinct (adjacencyRestrictions m) \<Longrightarrow> distinct (violated_restrictions d m)"
  by (simp add: violated_restrictions_def)

lemma one_of_module:
  fixes ms :: "FunctionalModule list" and mk :: "FunctionalModule \<Rightarrow> string \<Rightarrow> ValidationResult"
    and sel :: "FunctionalModule \<Rightarrow> string list"
  assumes ids: "distinct (map id_m ms)" and m: "m \<in> set ms"
    and xs: "distinct (sel m)" "R \<in> set (sel m)"
    and aff: "\<And>m' r. affectedModules (mk m' r) = Some [id_m m', r]"
  shows "filter (\<lambda>f. affectedModules f = Some [id_m m, R])
           (concat (map (\<lambda>m'. map (mk m') (sel m')) ms)) = [mk m R]"
proof -
  let ?A = "\<lambda>f. affectedModules f = Some [id_m m, R]"
  let ?h = "\<lambda>m'. filter ?A (map (mk m') (sel m'))"
  have h: "?h m' = map (mk m') (filter (\<lambda>r. id_m m' = id_m m \<and> r = R) (sel m'))"
    for m' :: FunctionalModule
    by (simp add: filter_map o_def aff)
  have "filter ?A (concat (map (\<lambda>m'. map (mk m') (sel m')) ms)) = concat (map ?h ms)"
    by (simp add: filter_concat o_def)
  also have "\<dots> = ?h m"
    using ids m
  proof (rule concat_single)
    fix m' :: FunctionalModule assume "id_m m' \<noteq> id_m m"
    then show "?h m' = []" by (simp add: h)
  qed
  also have "\<dots> = map (mk m) (filter (\<lambda>r. r = R) (sel m))"
    by (simp add: h)
  also have "\<dots> = [mk m R]"
    using xs by (simp add: filter_eq_single)
  finally show ?thesis .
qed

lemma one_warning:
  assumes r: "validateDesign d = Inr fs"
    and ids: "distinct (map id_m (modules d))" and m: "m \<in> set (modules d)"
    and rs: "distinct (adjacencyRequirements m)" "R \<in> set (adjacencyRequirements m)"
    and nc: "\<not> hasConnection d (id_m m) R"
  shows "filter (\<lambda>f. is_adjacency_warning f \<and> affectedModules f = Some [id_m m, R]) fs
           = [adjacency_warning d m R]"
proof -
  from r obtain launch where l: "validateLaunchConstraints d = Inr launch"
    and fs: "fs = six_checks d launch"
    using vd_returns by blast
  have "filter is_adjacency_warning fs = filter is_adjacency_warning (validateModuleRequirements d)"
    unfolding fs using _ l by (rule filter_six_checks) (simp add: is_adjacency_warning_def)
  then have w: "filter is_adjacency_warning fs
     = concat (map (\<lambda>m. map (adjacency_warning d m) (unmet_requirements d m)) (modules d))"
    by (simp add: module_warnings)
  have "filter (\<lambda>f. is_adjacency_warning f \<and> affectedModules f = Some [id_m m, R]) fs
      = filter (\<lambda>f. affectedModules f = Some [id_m m, R]) (filter is_adjacency_warning fs)"
    by simp
  also have "\<dots> = [adjacency_warning d m R]"
    unfolding w using ids m
  proof (rule one_of_module)
    show "distinct (unmet_requirements d m)" using rs(1) by (rule unmet_distinct)
    show "R \<in> set (unmet_requirements d m)" using rs(2) nc by (simp add: unmet_requirements_def)
    show "affectedModules (adjacency_warning d m' r) = Some [id_m m', r]" for m' r
      by (simp add: adjacency_warning_def)
  qed
  finally show ?thesis .
qed

lemma one_error:
  assumes r: "validateDesign d = Inr fs"
    and ids: "distinct (map id_m (modules d))" and m: "m \<in> set (modules d)"
    and rs: "distinct (adjacencyRestrictions m)" "S \<in> set (adjacencyRestrictions m)"
    and hc: "hasConnection d (id_m m) S"
  shows "filter (\<lambda>f. is_adjacency_error f \<and> affectedModules f = Some [id_m m, S]) fs
           = [restriction_error d m S]"
proof -
  from r obtain launch where l: "validateLaunchConstraints d = Inr launch"
    and fs: "fs = six_checks d launch"
    using vd_returns by blast
  have "filter is_adjacency_error fs = filter is_adjacency_error (validateModuleRequirements d)"
    unfolding fs using _ l by (rule filter_six_checks) (simp add: is_adjacency_error_def)
  then have w: "filter is_adjacency_error fs
     = concat (map (\<lambda>m. map (restriction_error d m) (violated_restrictions d m)) (modules d))"
    by (simp add: module_errors)
  have "filter (\<lambda>f. is_adjacency_error f \<and> affectedModules f = Some [id_m m, S]) fs
      = filter (\<lambda>f. affectedModules f = Some [id_m m, S]) (filter is_adjacency_error fs)"
    by simp
  also have "\<dots> = [restriction_error d m S]"
    unfolding w using ids m
  proof (rule one_of_module)
    show "distinct (violated_restrictions d m)" using rs(1) by (rule violated_distinct)
    show "S \<in> set (violated_restrictions d m)"
      using rs(2) hc by (simp add: violated_restrictions_def)
    show "affectedModules (restriction_error d m' r) = Some [id_m m', r]" for m' r
      by (simp add: restriction_error_def)
  qed
  finally show ?thesis .
qed

lemma has_add:
  "hasConnection (add_connection d c) a b = (hasConnection d a b \<or> links c a b)"
  by (auto simp: hasConnection_def add_connection_def links_def)

lemma links_pair:
  "links c M R \<Longrightarrow> links c a b = ((a = M \<and> b = R) \<or> (a = R \<and> b = M))"
  by (auto simp: links_def)

lemma name_add: "name_or_id (add_connection d c) x = name_or_id d x"
  by (simp add: name_or_id_def add_connection_def)

lemma aw_add: "adjacency_warning (add_connection d c) = adjacency_warning d"
  by (rule ext)+ (simp add: adjacency_warning_def name_add)

lemma re_add: "restriction_error (add_connection d c) = restriction_error d"
  by (rule ext)+ (simp add: restriction_error_def name_add)

lemma volume_add: "validateVolumeRequirements (add_connection d c) = validateVolumeRequirements d"
  by (simp add: validateVolumeRequirements_def validateFunctionalAreaVolumes_def add_connection_def
      cong: if_cong option.case_cong)

lemma launch_add: "validateLaunchConstraints (add_connection d c) = validateLaunchConstraints d"
  by (simp add: validateLaunchConstraints_def add_connection_def
      cong: if_cong option.case_cong)

lemma crew_add: "validateCrewRequirements (add_connection d c) = validateCrewRequirements d"
  by (simp add: validateCrewRequirements_def add_connection_def
      cong: if_cong option.case_cong)

lemma safety_add: "validateSafetyRequirements (add_connection d c) = validateSafetyRequirements d"
  by (simp add: validateSafetyRequirements_def add_connection_def
      cong: if_cong option.case_cong)

lemma life_add:
  "validateLifeSupportRequirements (add_connection d c) = validateLifeSupportRequirements d"
  by (simp add: validateLifeSupportRequirements_def add_connection_def
      cong: if_cong option.case_cong)

lemma modules_add: "modules (add_connection d c) = modules d"
  by (simp add: add_connection_def)

lemma kept_other: "category f \<noteq> Cat_adjacency \<Longrightarrow> kept a b f"
  by (simp add: kept_def is_adjacency_warning_def)

lemma kept_warning:
  "kept M R (adjacency_warning d m r) = (\<not> ((id_m m = M \<and> r = R) \<or> (id_m m = R \<and> r = M)))"
proof -
  have "cites (adjacency_warning d m r) M R = ((id_m m = M \<and> r = R) \<or> (id_m m = R \<and> r = M))"
    by (simp add: cites_def adjacency_warning_def)
  then show ?thesis by (simp add: kept_def warning_is)
qed

lemma kept_error: "kept M R (restriction_error d m r)"
  by (simp add: kept_def error_is_not_warning)

lemma requirements_add:
  assumes "links c M R"
  shows "check_requirements (add_connection d c) m = filter (kept M R) (check_requirements d m)"
proof -
  have "check_requirements (add_connection d c) m
          = map (adjacency_warning d m)
              (filter (\<lambda>r. \<not> hasConnection d (id_m m) r
                           \<and> \<not> ((id_m m = M \<and> r = R) \<or> (id_m m = R \<and> r = M)))
                 (adjacencyRequirements m))"
    by (simp add: check_requirements_eq unmet_requirements_def has_add aw_add
        links_pair [OF assms])
  also have "\<dots> = filter (kept M R) (check_requirements d m)"
    by (simp add: check_requirements_eq unmet_requirements_def filter_map o_def kept_warning)
  finally show ?thesis .
qed

lemma restrictions_add:
  assumes l: "links c M R" and n: "\<not> restricts d M R" "\<not> restricts d R M"
    and m: "m \<in> set (modules d)"
  shows "check_restrictions (add_connection d c) m = filter (kept M R) (check_restrictions d m)"
proof -
  have no: "\<not> links c (id_m m) r" if "r \<in> set (adjacencyRestrictions m)" for r
    using n m that by (auto simp: links_pair [OF l] restricts_def list_ex_iff)
  have "filter (\<lambda>r. hasConnection d (id_m m) r \<or> links c (id_m m) r) (adjacencyRestrictions m)
          = filter (\<lambda>r. hasConnection d (id_m m) r) (adjacencyRestrictions m)"
    using no by (auto intro: filter_cong)
  then have "check_restrictions (add_connection d c) m = check_restrictions d m"
    by (simp add: check_restrictions_eq violated_restrictions_def has_add re_add)
  also have "\<dots> = filter (kept M R) (check_restrictions d m)"
    by (simp add: check_restrictions_eq kept_error)
  finally show ?thesis .
qed

lemma volume_check_kept: "filter (kept M R) (check_volume m) = check_volume m"
  using check_volume_category [of _ m] by (auto simp: filter_id_conv intro!: kept_other)

lemma module_add:
  assumes l: "links c M R" and n: "\<not> restricts d M R" "\<not> restricts d R M"
  shows "validateModuleRequirements (add_connection d c)
           = filter (kept M R) (validateModuleRequirements d)"
proof -
  let ?new = "\<lambda>m. check_requirements (add_connection d c) m
                 @ check_restrictions (add_connection d c) m @ check_volume m"
  let ?old = "\<lambda>m. check_requirements d m @ check_restrictions d m @ check_volume m"
  have eq: "?new m = filter (kept M R) (?old m)" if "m \<in> set (modules d)" for m
    using that
    by (simp add: requirements_add [OF l] restrictions_add [OF l n] volume_check_kept)
  have "validateModuleRequirements (add_connection d c) = concat (map ?new (modules d))"
    by (simp add: validateModuleRequirements_def modules_add)
  also have "map ?new (modules d) = map (\<lambda>m. filter (kept M R) (?old m)) (modules d)"
    using eq by (rule map_cong [OF refl])
  also have "concat (map (\<lambda>m. filter (kept M R) (?old m)) (modules d))
               = filter (kept M R) (concat (map ?old (modules d)))"
    by (simp add: filter_concat o_def del: filter_append)
  also have "concat (map ?old (modules d)) = validateModuleRequirements d"
    by (simp add: validateModuleRequirements_def)
  finally show ?thesis .
qed

lemma design_add:
  assumes r: "validateDesign d = Inr fs"
    and l: "links c M R" and n: "\<not> restricts d M R" "\<not> restricts d R M"
  shows "validateDesign (add_connection d c) = Inr (filter (kept M R) fs)"
proof -
  from r obtain launch where la: "validateLaunchConstraints d = Inr launch"
    and fs: "fs = six_checks d launch"
    using vd_returns by blast
  have k1: "filter (kept M R) (validateVolumeRequirements d) = validateVolumeRequirements d"
    using volume_category by (auto simp: filter_id_conv intro!: kept_other)
  have k2: "filter (kept M R) launch = launch"
    using launch_category [OF la] by (auto simp: filter_id_conv intro!: kept_other)
  have k3: "filter (kept M R) (validateCrewRequirements d) = validateCrewRequirements d"
    using crew_category by (auto simp: filter_id_conv intro!: kept_other)
  have k4: "filter (kept M R) (validateSafetyRequirements d) = validateSafetyRequirements d"
    using safety_category by (auto simp: filter_id_conv intro!: kept_other)
  have k5: "filter (kept M R) (validateLifeSupportRequirements d)
              = validateLifeSupportRequirements d"
    using life_category by (auto simp: filter_id_conv intro!: kept_other)
  have "validateLaunchConstraints (add_connection d c) = Inr launch"
    by (simp add: launch_add la)
  then have "validateDesign (add_connection d c) = Inr (six_checks (add_connection d c) launch)"
    by (rule vd_Inr)
  also have "six_checks (add_connection d c) launch = filter (kept M R) fs"
    by (simp add: fs six_checks_def volume_add crew_add safety_add life_add
        module_add [OF l n] k1 k2 k3 k4 k5)
  finally show ?thesis .
qed

lemma sample_returns:
  assumes "calculateSurfaceArea dims = Inr a"
  shows "\<not> isl (validateDesign (sample_design dims ms cs))"
proof -
  have "dimensions (sample_design dims ms cs) = dims" by (simp add: sample_design_def)
  with assms have "\<exists>rs. validateLaunchConstraints (sample_design dims ms cs) = Inr rs"
    using vlc_returns [OF sample_fairing, of dims ms cs a] by simp
  then show ?thesis using vd_Inr by fastforce
qed

lemma sample_raises:
  "validateDesign (sample_design (only_shape CUSTOM) ms cs) = Inl (UnsupportedShape CUSTOM)"
proof -
  have "calculateSurfaceArea (dimensions (sample_design (only_shape CUSTOM) ms cs))
          = Inl (UnsupportedShape CUSTOM)"
    by (simp add: sample_design_def calculateSurfaceArea_def only_shape_def)
  with sample_fairing have "validateLaunchConstraints (sample_design (only_shape CUSTOM) ms cs)
          = Inl (UnsupportedShape CUSTOM)"
    by (rule vlc_error)
  then show ?thesis by (rule vd_Inl)
qed

lemma cylinder_area: "calculateSurfaceArea cylinder_4_12 = Inr (2 * pi * 4 * (4 + 12))"
  by (simp add: cylinder_4_12_def calculateSurfaceArea_def only_shape_def falsy_def)

lemma cylinder_returns: "\<not> isl (validateDesign (sample_design cylinder_4_12 ms cs))"
  using cylinder_area by (rule sample_returns)

lemma add_sample:
  "add_connection (sample_design dims ms cs) c = sample_design dims ms (cs @ [c])"
  by (simp add: add_connection_def sample_design_def)

lemma returned_filter:
  assumes P: "\<And>f. P f \<Longrightarrow> category f = Cat_adjacency" and r: "\<not> isl (validateDesign d)"
  shows "filter P (projr (validateDesign d)) = filter P (validateModuleRequirements d)"
proof -
  from r have "validateDesign d = Inr (projr (validateDesign d))" by simp
  then obtain launch where l: "validateLaunchConstraints d = Inr launch"
    and fs: "projr (validateDesign d) = six_checks d launch"
    using vd_returns by blast
  show ?thesis unfolding fs using P l by (rule filter_six_checks)
qed

lemma returned_warnings:
  assumes "\<not> isl (validateDesign d)"
  shows "warnings_citing a b (projr (validateDesign d))
           = warnings_citing a b (validateModuleRequirements d)"
  unfolding warnings_citing_def
  using _ assms by (rule returned_filter) (simp add: is_adjacency_warning_def)

lemma returned_errors:
  assumes "\<not> isl (validateDesign d)"
  shows "filter is_adjacency_error (projr (validateDesign d))
           = filter is_adjacency_error (validateModuleRequirements d)"
  using _ assms by (rule returned_filter) (simp add: is_adjacency_error_def)

lemma warnings_citing_alt:
  "warnings_citing a b fs
     = filter (\<lambda>f. affectedModules f = Some [a, b]) (filter is_adjacency_warning fs)"
  by (simp add: warnings_citing_def)

lemma errors_citing_alt:
  "errors_citing a b fs
     = filter (\<lambda>f. affectedModules f = Some [a, b]) (filter is_adjacency_error fs)"
  by (simp add: errors_citing_def)

text \<open>
  C8, as the claim states it, fails in three ways. In a design of custom shape on a known
  launch vehicle, module \<open>a\<close> requires \<open>b\<close>, nothing connects them, and \<^verbatim>\<open>validateDesign\<close>
  throws instead of warning. When \<open>a\<close> lists \<open>b\<close> twice among its requirements, two warnings
  cite them. When \<open>a\<close> both requires and restricts \<open>b\<close>, adding the connection brings an
  adjacency error that was not there before.
\<close>

theorem validateDesign_adjacency_counterexample:
  "adjacencyRequirements mod_a = [''b''] \<and> \<not> hasConnection raising_pair ''a'' ''b''
   \<and> validateDesign raising_pair = Inl (UnsupportedShape CUSTOM)
   \<and> \<not> isl (validateDesign dup_pair)
   \<and> warnings_citing ''a'' ''b'' (projr (validateDesign dup_pair))
       = [adjacency_warning dup_pair mod_a_twice ''b'', adjacency_warning dup_pair mod_a_twice ''b'']
   \<and> \<not> isl (validateDesign conflict_pair)
   \<and> \<not> isl (validateDesign (add_connection conflict_pair conn_ab))
   \<and> filter is_adjacency_error (projr (validateDesign conflict_pair)) = []
   \<and> filter is_adjacency_error (projr (validateDesign (add_connection conflict_pair conn_ab)))
       = [restriction_error conflict_pair mod_a_conflict ''b'']"
proof -
  have 1: "adjacencyRequirements mod_a = [''b''] \<and> \<not> hasConnection raising_pair ''a'' ''b''"
    by (simp add: mod_a_def sample_module_def hasConnection_def raising_pair_def sample_design_def)
  have 2: "validateDesign raising_pair = Inl (UnsupportedShape CUSTOM)"
    unfolding raising_pair_def by (rule sample_raises)
  have 3: "\<not> isl (validateDesign dup_pair)"
    unfolding dup_pair_def by (rule cylinder_returns)
  have "warnings_citing ''a'' ''b'' (validateModuleRequirements dup_pair)
       = [adjacency_warning dup_pair mod_a_twice ''b'', adjacency_warning dup_pair mod_a_twice ''b'']"
    unfolding warnings_citing_alt module_warnings
    by (simp add: unmet_requirements_def hasConnection_def adjacency_warning_def
        dup_pair_def sample_design_def mod_a_twice_def mod_a_def mod_b_def sample_module_def)
  with 3 have 4: "warnings_citing ''a'' ''b'' (projr (validateDesign dup_pair))
       = [adjacency_warning dup_pair mod_a_twice ''b'', adjacency_warning dup_pair mod_a_twice ''b'']"
    by (simp add: returned_warnings)
  have 5: "\<not> isl (validateDesign conflict_pair)"
    unfolding conflict_pair_def by (rule cylinder_returns)
  have 6: "\<not> isl (validateDesign (add_connection conflict_pair conn_ab))"
    unfolding conflict_pair_def add_sample by (rule cylinder_returns)
  have "filter is_adjacency_error (validateModuleRequirements conflict_pair) = []"
    by (simp add: module_errors violated_restrictions_def hasConnection_def
        conflict_pair_def sample_design_def mod_a_conflict_def mod_a_def mod_b_def sample_module_def)
  with 5 have 7: "filter is_adjacency_error (projr (validateDesign conflict_pair)) = []"
    by (simp add: returned_errors)
  have "filter is_adjacency_error (validateModuleRequirements (add_connection conflict_pair conn_ab))
          = concat (map (\<lambda>m. map (restriction_error conflict_pair m)
                               (filter (\<lambda>r. hasConnection conflict_pair (id_m m) r
                                            \<or> links conn_ab (id_m m) r)
                                  (adjacencyRestrictions m)))
                     (modules conflict_pair))"
    by (simp add: module_errors violated_restrictions_def has_add re_add modules_add)
  also have "\<dots> = [restriction_error conflict_pair mod_a_conflict ''b'']"
    by (simp add: links_def hasConnection_def conn_ab_def conflict_pair_def sample_design_def
        mod_a_conflict_def mod_a_def mod_b_def sample_module_def)
  finally have "filter is_adjacency_error
                  (validateModuleRequirements (add_connection conflict_pair conn_ab))
          = [restriction_error conflict_pair mod_a_conflict ''b'']" .
  with 6 have 8: "filter is_adjacency_error
                    (projr (validateDesign (add_connection conflict_pair conn_ab)))
       = [restriction_error conflict_pair mod_a_conflict ''b'']"
    by (simp add: returned_errors)
  from 1 2 3 4 5 6 7 8 show ?thesis by blast
qed

lemma kept_removes: "warnings_citing M R (filter (kept M R) fs) = []"
  by (auto simp: warnings_citing_def kept_def cites_def filter_empty_conv)

text \<open>
  C8, amended. Whenever \<^verbatim>\<open>validateDesign\<close> returns its findings: the adjacency warnings
  are, in order, one per module and per entry of its adjacency requirements that no
  connection links to the module in either direction, and the adjacency errors are one per
  module and per entry of its adjacency restrictions that a connection does link to it.
  With unique module ids and a list without repetition, exactly one warning (error) cites
  the module and the required (restricted) id. Adding a connection between \<open>A\<close> and \<open>B\<close>,
  when no module with one of these ids restricts the other, returns the former findings
  without the adjacency warnings that cite \<open>A\<close> and \<open>B\<close>, and nothing else.
\<close>

theorem validateDesign_adjacency:
  assumes r: "validateDesign d = Inr fs"
  shows "filter is_adjacency_warning fs
           = concat (map (\<lambda>m. map (adjacency_warning d m) (unmet_requirements d m)) (modules d))
       \<and> filter is_adjacency_error fs
           = concat (map (\<lambda>m. map (restriction_error d m) (violated_restrictions d m)) (modules d))
       \<and> (distinct (map id_m (modules d)) \<and> m \<in> set (modules d)
            \<and> distinct (adjacencyRequirements m) \<and> R \<in> set (adjacencyRequirements m)
            \<and> \<not> hasConnection d (id_m m) R
           \<longrightarrow> warnings_citing (id_m m) R fs = [adjacency_warning d m R])
       \<and> (distinct (map id_m (modules d)) \<and> m \<in> set (modules d)
            \<and> distinct (adjacencyRestrictions m) \<and> S \<in> set (adjacencyRestrictions m)
            \<and> hasConnection d (id_m m) S
           \<longrightarrow> errors_citing (id_m m) S fs = [restriction_error d m S])
       \<and> (links c A B \<and> \<not> restricts d A B \<and> \<not> restricts d B A
           \<longrightarrow> validateDesign (add_connection d c) = Inr (filter (kept A B) fs)
               \<and> warnings_citing A B (filter (kept A B) fs) = [])"
proof -
  from r obtain launch where l: "validateLaunchConstraints d = Inr launch"
    and fs: "fs = six_checks d launch"
    using vd_returns by blast
  have "filter is_adjacency_warning fs = filter is_adjacency_warning (validateModuleRequirements d)"
    unfolding fs using _ l by (rule filter_six_checks) (simp add: is_adjacency_warning_def)
  then have 1: "filter is_adjacency_warning fs
     = concat (map (\<lambda>m. map (adjacency_warning d m) (unmet_requirements d m)) (modules d))"
    by (simp add: module_warnings)
  have "filter is_adjacency_error fs = filter is_adjacency_error (validateModuleRequirements d)"
    unfolding fs using _ l by (rule filter_six_checks) (simp add: is_adjacency_error_def)
  then have 2: "filter is_adjacency_error fs
     = concat (map (\<lambda>m. map (restriction_error d m) (violated_restrictions d m)) (modules d))"
    by (simp add: module_errors)
  have 3: "warnings_citing (id_m m) R fs = [adjacency_warning d m R]"
    if "distinct (map id_m (modules d))" "m \<in> set (modules d)"
      "distinct (adjacencyRequirements m)" "R \<in> set (adjacencyRequirements m)"
      "\<not> hasConnection d (id_m m) R"
    unfolding warnings_citing_def using r that by (rule one_warning)
  have 4: "errors_citing (id_m m) S fs = [restriction_error d m S]"
    if "distinct (map id_m (modules d))" "m \<in> set (modules d)"
      "distinct (adjacencyRestrictions m)" "S \<in> set (adjacencyRestrictions m)"
      "hasConnection d (id_m m) S"
    unfolding errors_citing_def using r that by (rule one_error)
  have 5: "validateDesign (add_connection d c) = Inr (filter (kept A B) fs)"
    if "links c A B" "\<not> restricts d A B" "\<not> restricts d B A"
    using r that by (rule design_add)
  from 1 2 3 4 5 kept_removes [of A B fs] show ?thesis by blast
qed

theorem validateDesign_adjacency_witness:
  "validateDesign lonely_pair = Inr (projr (validateDesign lonely_pair))
   \<and> distinct (map id_m (modules lonely_pair)) \<and> mod_a \<in> set (modules lonely_pair)
   \<and> distinct (adjacencyRequirements mod_a) \<and> ''b'' \<in> set (adjacencyRequirements mod_a)
   \<and> \<not> hasConnection lonely_pair (id_m mod_a) ''b''
   \<and> warnings_citing ''a'' ''b'' (projr (validateDesign lonely_pair))
       = [adjacency_warning lonely_pair mod_a ''b'']
   \<and> links conn_ab ''a'' ''b'' \<and> \<not> restricts lonely_pair ''a'' ''b''
   \<and> \<not> restricts lonely_pair ''b'' ''a''
   \<and> validateDesign (add_connection lonely_pair conn_ab)
       = Inr (filter (kept ''a'' ''b'') (projr (validateDesign lonely_pair)))
   \<and> validateDesign (add_connection conflict_pair conn_ab)
       = Inr (projr (validateDesign (add_connection conflict_pair conn_ab)))
   \<and> mod_a_conflict \<in> set (modules (add_connection conflict_pair conn_ab))
   \<and> ''b'' \<in> set (adjacencyRestrictions mod_a_conflict)
   \<and> hasConnection (add_connection conflict_pair conn_ab) (id_m mod_a_conflict) ''b''
   \<and> errors_citing ''a'' ''b'' (projr (validateDesign (add_connection conflict_pair conn_ab)))
       = [restriction_error (add_connection conflict_pair conn_ab) mod_a_conflict ''b'']"
proof -
  have r: "validateDesign lonely_pair = Inr (projr (validateDesign lonely_pair))"
    using cylinder_returns [of "[mod_a, mod_b]" "[]"] by (simp add: lonely_pair_def)
  have h: "distinct (map id_m (modules lonely_pair))" "mod_a \<in> set (modules lonely_pair)"
    "distinct (adjacencyRequirements mod_a)" "''b'' \<in> set (adjacencyRequirements mod_a)"
    "\<not> hasConnection lonely_pair (id_m mod_a) ''b''" "id_m mod_a = ''a''"
    by (simp_all add: lonely_pair_def sample_design_def mod_a_def mod_b_def sample_module_def
        hasConnection_def)
  have k: "links conn_ab ''a'' ''b''" "\<not> restricts lonely_pair ''a'' ''b''"
    "\<not> restricts lonely_pair ''b'' ''a''"
    by (simp_all add: links_def conn_ab_def restricts_def lonely_pair_def sample_design_def
        mod_a_def mod_b_def sample_module_def)
  have r': "validateDesign (add_connection conflict_pair conn_ab)
       = Inr (projr (validateDesign (add_connection conflict_pair conn_ab)))"
    using cylinder_returns [of "[mod_a_conflict, mod_b]" "[conn_ab]"]
    by (simp add: conflict_pair_def add_sample)
  have h': "distinct (map id_m (modules (add_connection conflict_pair conn_ab)))"
    "mod_a_conflict \<in> set (modules (add_connection conflict_pair conn_ab))"
    "distinct (adjacencyRestrictions mod_a_conflict)"
    "''b'' \<in> set (adjacencyRestrictions mod_a_conflict)"
    "hasConnection (add_connection conflict_pair conn_ab) (id_m mod_a_conflict) ''b''"
    "id_m mod_a_conflict = ''a''"
    by (simp_all add: conflict_pair_def add_connection_def sample_design_def mod_a_conflict_def
        mod_a_def mod_b_def sample_module_def hasConnection_def conn_ab_def)
  from validateDesign_adjacency [OF r, where m = mod_a and R = "''b''" and c = conn_ab and A = "''a''" and B = "''b''"]
    h k
  have 1: "warnings_citing ''a'' ''b'' (projr (validateDesign lonely_pair))
       = [adjacency_warning lonely_pair mod_a ''b'']"
    and 2: "validateDesign (add_connection lonely_pair conn_ab)
       = Inr (filter (kept ''a'' ''b'') (projr (validateDesign lonely_pair)))"
    by simp_all
  from validateDesign_adjacency [OF r', where m = mod_a_conflict and S = "''b''"] h'
  have 3: "errors_citing ''a'' ''b'' (projr (validateDesign (add_connection conflict_pair conn_ab)))
       = [restriction_error (add_connection conflict_pair conn_ab) mod_a_conflict ''b'']"
    by simp
  from r h k 1 2 r' h' 3 show ?thesis by simp
qed

text \<open>
  C9, as the claim states it, fails: a command module of one cubic metre, below the minimum
  of 15, in a design of custom shape on a known launch vehicle gets no warning, because
  \<^verbatim>\<open>validateDesign\<close> throws in the launch sub-check and returns no finding.
\<close>

theorem validateDesign_module_volume_counterexample:
  "small_command \<in> set (modules cramped_custom)
   \<and> min_volume_of (type_m small_command) = Some 15
   \<and> volume small_command < 15
   \<and> validateDesign cramped_custom = Inl (UnsupportedShape CUSTOM)"
proof -
  have "validateDesign cramped_custom = Inl (UnsupportedShape CUSTOM)"
    unfolding cramped_custom_def by (rule sample_raises)
  moreover have "small_command \<in> set (modules cramped_custom)"
    "type_m small_command = COMMAND" "volume small_command < 15"
    by (simp_all add: cramped_custom_def sample_design_def small_command_def sample_module_def)
  ultimately show ?thesis by (simp add: min_volume_table)
qed

theorem validateDesign_module_volume_witness:
  "validateDesign cramped = Inr (projr (validateDesign cramped))
   \<and> small_command \<in> set (modules cramped)
   \<and> min_volume_of (type_m small_command) = Some 15
   \<and> volume small_command < 15
   \<and> (\<exists>f \<in> set (projr (validateDesign cramped)).
         severity f = Sev_warning \<and> category f = Cat_volume
         \<and> affectedModules f = Some [id_m small_command])
   \<and> type_m (sample_module ''w'' WORKSHOP ''Workshop'' 1) \<in> {WORKSHOP, RECREATION}
   \<and> check_volume (sample_module ''w'' WORKSHOP ''Workshop'' 1) = []"
proof -
  have r: "validateDesign cramped = Inr (projr (validateDesign cramped))"
    using cylinder_returns [of "[small_command]" "[]"] by (simp add: cramped_def)
  have h: "small_command \<in> set (modules cramped)" "type_m small_command = COMMAND"
    "volume small_command < 15"
    by (simp_all add: cramped_def sample_design_def small_command_def sample_module_def)
  then have h2: "min_volume_of (type_m small_command) = Some 15"
    by (simp add: min_volume_table)
  have w: "type_m (sample_module ''w'' WORKSHOP ''Workshop'' 1) \<in> {WORKSHOP, RECREATION}"
    by (simp add: sample_module_def)
  from validateDesign_module_volume [where d = cramped and fs = "projr (validateDesign cramped)" and m = small_command
              and v = 15] r h h2
  have 1: "\<exists>f \<in> set (projr (validateDesign cramped)).
         severity f = Sev_warning \<and> category f = Cat_volume
         \<and> affectedModules f = Some [id_m small_command]"
    by blast
  from validateDesign_module_volume [where m = "sample_module ''w'' WORKSHOP ''Workshop'' 1"] w
  have 2: "check_volume (sample_module ''w'' WORKSHOP ''Workshop'' 1) = []"
    by blast
  from r h h2 1 w 2 show ?thesis by blast
qed

end
